theory Spec2Isabelle
  imports Main
begin

section \<open>Canonical model\<close>

text \<open>
  The channel adapters of the courier (FreshChat, Zenvia SMS, Zenvia WhatsApp, Slack)
  share the canonical status values of the courier package. Only the values the adapters
  use are listed.
\<close>

datatype MsgStatusValue = MsgWired | MsgSent | MsgDelivered | MsgFailed | MsgErrored

text \<open>
  A Go call either returns or panics. A panic is a value of the model, so that a claim
  about panics is a claim about the result.
\<close>

datatype 'a outcome = Returned 'a | Panicked string

section \<open>Status mapping\<close>

subsection \<open>Zenvia SMS (handlers/zenvia/zenvia.go)\<close>

text \<open>The map literal \<^verbatim>\<open>statusMapping\<close>, in the order of the source.\<close>

definition zv_statusMapping :: "(string \<times> MsgStatusValue) list" where
  "zv_statusMapping =
     [(''00'', MsgSent), (''01'', MsgSent), (''02'', MsgSent), (''03'', MsgDelivered),
      (''04'', MsgErrored), (''05'', MsgErrored), (''06'', MsgErrored), (''07'', MsgErrored),
      (''08'', MsgErrored), (''09'', MsgErrored), (''10'', MsgErrored)]"

text \<open>
  \<^verbatim>\<open>msgStatus, found := statusMapping[code]; if !found { msgStatus = courier.MsgErrored }\<close>
  of \<^verbatim>\<open>StatusMessage\<close>.
\<close>

definition zv_mapStatus :: "string \<Rightarrow> MsgStatusValue" where
  "zv_mapStatus code =
     (case map_of zv_statusMapping code of None \<Rightarrow> MsgErrored | Some s \<Rightarrow> s)"

subsection \<open>Zenvia WhatsApp (package zenviawhatsapp)\<close>

definition zvw_statusMapping :: "(string \<times> MsgStatusValue) list" where
  "zvw_statusMapping =
     [(''REJECTED'', MsgFailed), (''NOT_DELIVERED'', MsgFailed), (''SENT'', MsgSent),
      (''DELIVERED'', MsgDelivered), (''READ'', MsgDelivered)]"

text \<open>
  \<^verbatim>\<open>strings.ToUpper\<close>. A string whose bytes are all below \<^verbatim>\<open>utf8.RuneSelf\<close>
  (0x80, the top bit of the byte) is ASCII: Go maps its letters a-z to A-Z and leaves
  every other byte as it is. Any other string goes through the Unicode case mapping
  (\<^verbatim>\<open>unicode.ToUpper\<close>, which for instance maps U+017F to S and U+0131 to I); that
  mapping is the parameter \<open>u\<close>.
\<close>

definition upper_table :: "(char \<times> char) list" where
  "upper_table = zip ''abcdefghijklmnopqrstuvwxyz'' ''ABCDEFGHIJKLMNOPQRSTUVWXYZ''"

definition isASCII :: "string \<Rightarrow> bool" where
  "isASCII s = list_all (\<lambda>c. \<not> digit7 c) s"

definition ToUpper :: "(string \<Rightarrow> string) \<Rightarrow> string \<Rightarrow> string" where
  "ToUpper u s =
     (if isASCII s then map (\<lambda>c. case map_of upper_table c of None \<Rightarrow> c | Some x \<Rightarrow> x) s
      else u s)"

text \<open>
  \<^verbatim>\<open>msgStatus, found := statusMapping[strings.ToUpper(payload.MessageStatus.Code)]\<close>
  with the same default, in \<^verbatim>\<open>receiveStatus\<close>.
\<close>

definition zvw_mapStatus :: "(string \<Rightarrow> string) \<Rightarrow> string \<Rightarrow> MsgStatusValue" where
  "zvw_mapStatus u code =
     (case map_of zvw_statusMapping (ToUpper u code) of None \<Rightarrow> MsgErrored | Some s \<Rightarrow> s)"

section \<open>Errors, channels, messages, statuses\<close>

text \<open>
  A Go \<^verbatim>\<open>error\<close> value: either built in the handler by \<^verbatim>\<open>fmt.Errorf\<close>,
  \<^verbatim>\<open>errors.Errorf\<close> or \<^verbatim>\<open>errors.New\<close> (the message is kept), or received from
  a call outside the handlers (transport, backend, library), or such an error wrapped
  with a message by \<^verbatim>\<open>errors.Wrapf\<close>. A nil error is \<open>None\<close>.
\<close>

datatype error = Errorf string | External string | Wrapf error string

text \<open>
  A channel with its configuration mapping, provider-side address and URN schemes.
  \<^verbatim>\<open>StringConfigForKey(key, default)\<close> reads the mapping with a default.
\<close>

record Channel =
  ch_config :: "string \<rightharpoonup> string"
  ch_address :: string
  ch_schemes :: "string list"

definition StringConfigForKey :: "Channel \<Rightarrow> string \<Rightarrow> string \<Rightarrow> string" where
  "StringConfigForKey c key dflt = (case ch_config c key of None \<Rightarrow> dflt | Some v \<Rightarrow> v)"

definition ConfigUsername :: string where "ConfigUsername = ''username''"

definition ConfigPassword :: string where "ConfigPassword = ''password''"

definition ConfigAuthToken :: string where "ConfigAuthToken = ''auth_token''"

definition ConfigAPIKey :: string where "ConfigAPIKey = ''api_key''"

definition configBotToken :: string where "configBotToken = ''bot_token''"

text \<open>The outbound message as the encoders read it.\<close>

record Msg =
  msg_channel :: Channel
  msg_id :: int
  msg_urn_path :: string
  msg_text :: string
  msg_attachments :: "string list"

text \<open>
  The request bodies the encoders build, one constructor per provider payload
  (\<^verbatim>\<open>messagePayload\<close> of FreshChat, \<^verbatim>\<open>zvSendSMSRequest\<close>, \<^verbatim>\<open>mtPayload\<close> of Zenvia
  WhatsApp and of Slack, the multipart form of \<^verbatim>\<open>sendFilePart\<close>).
\<close>

datatype fc_part = FcText string | FcImage string

record mtContent =
  mt_type :: string
  mt_text :: string
  mt_fileUrl :: string
  mt_fileMimeType :: string

datatype body =
    NoBody
  | FcBody (fc_channel_id: string) (fc_user_id: string) (fc_actor_id: string)
      (fc_actor_type: string) (fc_parts: "fc_part list")
  | ZvBody (zv_from: string) (zv_to: string) (zv_msg: string) (zv_id: int)
      (zv_callback: string)
  | ZvwBody (zvw_from: string) (zvw_to: string) (zvw_contents: "mtContent list")
  | SlTextBody (sl_channel: string) (sl_text: string)
  | SlFileBody (sl_file: string) (sl_filename: string) (sl_channels: string)

record Request =
  req_method :: string
  req_url :: string
  req_headers :: "(string \<times> string) list"
  req_body :: body

text \<open>
  Modelled from the spec: \<^verbatim>\<open>courier.ChannelLog\<close>, \<^verbatim>\<open>NewChannelLogFromRR\<close>,
  \<^verbatim>\<open>WithError\<close> and the status object of the backend (\<^verbatim>\<open>NewMsgStatusForID\<close>,
  \<^verbatim>\<open>AddLog\<close>, \<^verbatim>\<open>SetStatus\<close>, \<^verbatim>\<open>SetExternalID\<close>) are not in the source tree. A
  log is the audit record of one exchange (description, response snapshot, optional
  error); \<open>WithError\<close> with a nil error leaves the log as it is; a status holds its
  value, the ordered log trail and the external id. \<open>AddLog\<close> stores the pointer it
  is given, which the Slack encoder calls with nil, so the trail holds optional logs.
\<close>

record ChannelLog =
  log_description :: string
  log_response :: string
  log_error :: "error option"

definition NewChannelLogFromRR :: "string \<Rightarrow> string \<Rightarrow> ChannelLog" where
  "NewChannelLogFromRR desc rr =
     \<lparr>log_description = desc, log_response = rr, log_error = None\<rparr>"

definition WithError :: "string \<Rightarrow> error option \<Rightarrow> ChannelLog \<Rightarrow> ChannelLog" where
  "WithError desc err l =
     (case err of None \<Rightarrow> l
      | Some e \<Rightarrow> l\<lparr>log_description := desc, log_error := Some e\<rparr>)"

record MsgStatus =
  st_id :: int
  st_value :: MsgStatusValue
  st_logs :: "ChannelLog option list"
  st_external_id :: string

definition NewMsgStatusForID :: "int \<Rightarrow> MsgStatusValue \<Rightarrow> MsgStatus" where
  "NewMsgStatusForID i v =
     \<lparr>st_id = i, st_value = v, st_logs = [], st_external_id = []\<rparr>"

definition AddLog :: "ChannelLog option \<Rightarrow> MsgStatus \<Rightarrow> MsgStatus" where
  "AddLog l st = st\<lparr>st_logs := st_logs st @ [l]\<rparr>"

definition SetStatus :: "MsgStatusValue \<Rightarrow> MsgStatus \<Rightarrow> MsgStatus" where
  "SetStatus v st = st\<lparr>st_value := v\<rparr>"

definition SetExternalID :: "string \<Rightarrow> MsgStatus \<Rightarrow> MsgStatus" where
  "SetExternalID x st = st\<lparr>st_external_id := x\<rparr>"

text \<open>
  What \<^verbatim>\<open>SendMsg\<close> gives back: the status (nil is \<open>None\<close>), the error value (nil is
  \<open>None\<close>), and the requests it issued through \<^verbatim>\<open>utils.MakeHTTPRequest\<close>, in order.
\<close>

record sent =
  res_status :: "MsgStatus option"
  res_error :: "error option"
  res_calls :: "Request list"

text \<open>
  The calls that leave the handlers are parameters of the model:
  \<^item> \<open>net n req\<close>: what \<^verbatim>\<open>utils.MakeHTTPRequest\<close> returns for the \<open>n\<close>-th request of
    a send (the response body and the error, nil on success);
  \<^item> \<open>json_GetString\<close>, \<open>json_GetBoolean\<close>: \<^verbatim>\<open>jsonparser.GetString\<close> and
    \<^verbatim>\<open>GetBoolean\<close> on a body and a key path, \<open>Inl\<close> the error they return;
  \<^item> \<open>SplitAttachment\<close>, \<open>BasePathForURL\<close>, \<open>GetTextAndAttachments\<close>: helpers of the
    handlers, utils and courier packages;
  \<^item> \<open>NewRequest_err\<close>: the error of \<^verbatim>\<open>http.NewRequest\<close> for a URL, nil when the URL
    parses;
  \<^item> \<open>Unmarshal_FileResponse\<close>: \<^verbatim>\<open>json.Unmarshal\<close> into a Slack \<^verbatim>\<open>FileResponse\<close>,
    giving its \<open>ok\<close> and \<open>error\<close> fields, \<open>None\<close> when it returns an error.
\<close>

record env =
  net :: "nat \<Rightarrow> Request \<Rightarrow> string \<times> error option"
  json_GetString :: "string \<Rightarrow> string list \<Rightarrow> error + string"
  json_GetBoolean :: "string \<Rightarrow> string list \<Rightarrow> error + bool"
  SplitAttachment :: "string \<Rightarrow> string \<times> string"
  BasePathForURL :: "string \<Rightarrow> error + string"
  GetTextAndAttachments :: "Msg \<Rightarrow> string"
  NewRequest_err :: "string \<Rightarrow> error option"
  Unmarshal_FileResponse :: "string \<Rightarrow> (bool \<times> string) option"

section \<open>FreshChat (freshchat/freshchat.go)\<close>

subsection \<open>Outbound: SendMsg\<close>

text \<open>\<^verbatim>\<open>strings.Split(s, "/")\<close> for a one-byte separator.\<close>

fun Split :: "string \<Rightarrow> char \<Rightarrow> string list" where
  "Split [] sep = [[]]"
| "Split (c # cs) sep =
     (if c = sep then [] # Split cs sep
      else (case Split cs sep of [] \<Rightarrow> [[c]] | p # ps \<Rightarrow> (c # p) # ps))"

definition fc_apiURL :: string where
  "fc_apiURL = ''https://api.freshchat.com/v2''"

text \<open>
  The message parts of the payload: the text when it is not empty, then the first
  attachment when there is one.
\<close>

definition fc_message_parts :: "Msg \<Rightarrow> fc_part list" where
  "fc_message_parts msg =
     (if length (msg_text msg) > 0 then [FcText (msg_text msg)] else []) @
     (case msg_attachments msg of [] \<Rightarrow> [] | a # _ \<Rightarrow> [FcImage a])"

text \<open>
  \<^verbatim>\<open>SendMsg\<close>: the two credential checks, the split of the URN path, whose second
  element is read without a length check (an index out of range is a run-time panic),
  then one request.
\<close>

definition fc_SendMsg :: "env \<Rightarrow> Msg \<Rightarrow> sent outcome" where
  "fc_SendMsg e msg =
     (let agentID = StringConfigForKey (msg_channel msg) ConfigUsername [] in
      if agentID = [] then
        Returned \<lparr>res_status = None,
          res_error = Some (Errorf ''missing 'agent_id' config for FC channel''),
          res_calls = []\<rparr>
      else
      let authToken = StringConfigForKey (msg_channel msg) ConfigAuthToken [] in
      if authToken = [] then
        Returned \<lparr>res_status = None,
          res_error = Some (Errorf ''missing 'auth_token' config for FC channel''),
          res_calls = []\<rparr>
      else
      let user = Split (msg_urn_path msg) CHR ''/'';
          status = NewMsgStatusForID (msg_id msg) MsgErrored
      in
      if length user < 2 then Panicked ''index out of range [1] with length 1''
      else
      let req = \<lparr>req_method = ''POST'', req_url = fc_apiURL @ ''/conversations'',
                 req_headers = [(''Content-Type'', ''application/json''),
                                (''Authorization'', ''Bearer '' @ authToken)],
                 req_body = FcBody (user ! 0) (user ! 1) agentID ''agent''
                              (fc_message_parts msg)\<rparr>;
          (rr, err) = net e 0 req;
          log = WithError ''Message Send Error'' err (NewChannelLogFromRR ''Message Sent'' rr);
          status = AddLog (Some log) status
      in
      (case err of
         Some x \<Rightarrow>
           Returned \<lparr>res_status = Some status, res_error = Some x, res_calls = [req]\<rparr>
       | None \<Rightarrow>
           Returned \<lparr>res_status = Some (SetStatus MsgWired status), res_error = None,
             res_calls = [req]\<rparr>))"

subsection \<open>Signature verification: validateSignature\<close>

text \<open>
  The library calls are parameters: \<^verbatim>\<open>pem.Decode\<close> (\<open>None\<close> is the nil block it
  returns when the input holds no PEM block), \<^verbatim>\<open>x509.ParsePKIXPublicKey\<close> (an error
  or a public key, which is an RSA key or a key of another algorithm),
  \<^verbatim>\<open>base64.StdEncoding.DecodeString\<close>, SHA-256 and \<^verbatim>\<open>rsa.VerifyPKCS1v15\<close> (its
  error, nil when the signature matches).
\<close>

datatype PublicKey = RSAPublicKey string | OtherPublicKey string

record crypto =
  pem_Decode :: "string \<Rightarrow> string option"
  x509_ParsePKIXPublicKey :: "string \<Rightarrow> string + PublicKey"
  base64_DecodeString :: "string \<Rightarrow> string + string"
  sha256_Sum :: "string \<Rightarrow> string"
  rsa_VerifyPKCS1v15 :: "string \<Rightarrow> string \<Rightarrow> string \<Rightarrow> string option"

record handler =
  validateSignatures :: bool

text \<open>The part of the HTTP request the handler reads: the signature header and the body.\<close>

record HttpRequest =
  hdr_signature :: string
  http_body :: string

text \<open>
  \<^verbatim>\<open>validateSignature\<close>, in the order of the source: the flag, the header, the PEM
  block (whose \<^verbatim>\<open>Bytes\<close> field is read without a nil check), the key parse (which
  panics on an error), the base64 decoding, the type assertion to an RSA key, the
  verification.
\<close>

definition validateSignature ::
  "crypto \<Rightarrow> handler \<Rightarrow> Channel \<Rightarrow> HttpRequest \<Rightarrow> error option outcome" where
  "validateSignature k h c r =
     (if \<not> validateSignatures h then Returned None
      else
      let rsaPubKey = StringConfigForKey c ConfigPassword [];
          actual = hdr_signature r
      in
      if actual = [] then Returned (Some (Errorf ''missing request signature''))
      else
      let token = http_body r in
      (case pem_Decode k rsaPubKey of
         None \<Rightarrow> Panicked ''invalid memory address or nil pointer dereference''
       | Some block_Bytes \<Rightarrow>
      (case x509_ParsePKIXPublicKey k block_Bytes of
         Inl x \<Rightarrow> Panicked (''failed to parse DER encoded public key: '' @ x)
       | Inr pub \<Rightarrow>
      (case base64_DecodeString k actual of
         Inl x \<Rightarrow> Returned (Some (Errorf (''unable to decode base64 signature, '' @ x)))
       | Inr decodedSig \<Rightarrow>
      (case pub of
         OtherPublicKey _ \<Rightarrow>
           Panicked ''interface conversion: interface {} is not *rsa.PublicKey''
       | RSAPublicKey key \<Rightarrow>
      (case rsa_VerifyPKCS1v15 k key (sha256_Sum k token) decodedSig of
         Some x \<Rightarrow> Returned (Some (Errorf (''unable to verify signature, '' @ x)))
       | None \<Rightarrow> Returned None))))))"

subsection \<open>Inbound: receiveMessage\<close>

text \<open>
  The decoded webhook payload. \<^verbatim>\<open>Data.Message\<close>, \<^verbatim>\<open>Text\<close> and \<^verbatim>\<open>Image\<close> are
  pointers in the source: nil is \<open>None\<close>.
\<close>

record MessageParts =
  part_Text :: "string option"
  part_Image :: "string option"

record Message =
  msg_MessageParts :: "MessageParts list"
  ActorID :: string
  ChannelID :: string
  ActorType :: string
  CreatedTime :: int

record moPayload =
  Data_Message :: "Message option"

text \<open>The canonical inbound message the handlers build through the backend.\<close>

record URN =
  urn_scheme :: string
  urn_path :: string
  urn_display :: string

record InMsg =
  in_urn :: URN
  in_text :: string
  in_attachments :: "string list"
  in_external_id :: string
  in_received_on :: int
  in_contact_name :: string

definition NewIncomingMsg :: "URN \<Rightarrow> string \<Rightarrow> InMsg" where
  "NewIncomingMsg urn text =
     \<lparr>in_urn = urn, in_text = text, in_attachments = [], in_external_id = [],
      in_received_on = 0, in_contact_name = []\<rparr>"

definition WithReceivedOn :: "int \<Rightarrow> InMsg \<Rightarrow> InMsg" where
  "WithReceivedOn d m = m\<lparr>in_received_on := d\<rparr>"

definition WithExternalID :: "string \<Rightarrow> InMsg \<Rightarrow> InMsg" where
  "WithExternalID x m = m\<lparr>in_external_id := x\<rparr>"

definition WithContactName :: "string \<Rightarrow> InMsg \<Rightarrow> InMsg" where
  "WithContactName n m = m\<lparr>in_contact_name := n\<rparr>"

definition WithAttachment :: "string \<Rightarrow> InMsg \<Rightarrow> InMsg" where
  "WithAttachment u m = m\<lparr>in_attachments := in_attachments m @ [u]\<rparr>"

text \<open>
  How a receive handler ends: each constructor is the call of the handlers package that
  the source returns through. \<open>WriteAndLogRequestError\<close> writes an error response,
  \<open>WriteAndLogRequestIgnored\<close> acknowledges the request without an event, and
  \<open>WriteMsgsAndResponse\<close> hands the messages to the backend and acknowledges.
\<close>

datatype response =
    WriteAndLogRequestError error
  | WriteAndLogRequestIgnored string
  | WriteMsgsAndResponse "InMsg list"

text \<open>
  The loop over the message parts: \<open>text\<close> and \<open>mediaURL\<close> are overwritten by each
  part that has one.
\<close>

fun fc_parts_loop :: "MessageParts list \<Rightarrow> string \<times> string \<Rightarrow> string \<times> string" where
  "fc_parts_loop [] (text, mediaURL) = (text, mediaURL)"
| "fc_parts_loop (d # ds) (text, mediaURL) =
     fc_parts_loop ds
       ((case part_Text d of None \<Rightarrow> text | Some t \<Rightarrow> t),
        (case part_Image d of None \<Rightarrow> mediaURL | Some u \<Rightarrow> u))"

text \<open>
  The calls outside the handler: \<^verbatim>\<open>handlers.DecodeAndValidateJSON\<close> on the body and
  \<^verbatim>\<open>urns.NewURNFromParts\<close>.
\<close>

record fc_env =
  fc_crypto :: crypto
  fc_DecodeAndValidateJSON :: "string \<Rightarrow> error + moPayload"
  NewURNFromParts :: "string \<Rightarrow> string \<Rightarrow> string \<Rightarrow> string \<Rightarrow> error + URN"

definition fc_receiveMessage ::
  "fc_env \<Rightarrow> handler \<Rightarrow> Channel \<Rightarrow> HttpRequest \<Rightarrow> response outcome" where
  "fc_receiveMessage e h channel r =
     (case validateSignature (fc_crypto e) h channel r of
        Panicked p \<Rightarrow> Panicked p
      | Returned (Some err) \<Rightarrow> Returned (WriteAndLogRequestError err)
      | Returned None \<Rightarrow>
     (case fc_DecodeAndValidateJSON e (http_body r) of
        Inl err \<Rightarrow> Returned (WriteAndLogRequestError err)
      | Inr payload \<Rightarrow>
     (case Data_Message payload of
        None \<Rightarrow> Panicked ''invalid memory address or nil pointer dereference''
      | Some m \<Rightarrow>
      if ActorID m = [] then
        Returned (WriteAndLogRequestIgnored ''Ignoring request, no message'')
      else if ActorType m = ''agent'' then
        Returned (WriteAndLogRequestIgnored ''Ignoring request, Agent Message'')
      else
      (case ch_schemes channel of
         [] \<Rightarrow> Panicked ''index out of range [0] with length 0''
       | scheme # _ \<Rightarrow>
      (case NewURNFromParts e scheme (ChannelID m @ ''/'' @ ActorID m) [] [] of
         Inl err \<Rightarrow> Returned (WriteAndLogRequestError err)
       | Inr urn \<Rightarrow>
         let (text, mediaURL) = fc_parts_loop (msg_MessageParts m) ([], []);
             msg = WithReceivedOn (CreatedTime m) (NewIncomingMsg urn text);
             msg = (if mediaURL \<noteq> [] then WithAttachment mediaURL msg else msg)
         in Returned (WriteMsgsAndResponse [msg]))))))"

section \<open>Splitting a text into parts\<close>

text \<open>
  Modelled from the spec: \<^verbatim>\<open>handlers.SplitMsg\<close> and \<^verbatim>\<open>handlers.SplitMsgByChannel\<close>
  are called by the Zenvia encoders and are not in the source tree. The spec has long
  text subdivided by a provider-specific maximum length, lossless under concatenation
  with no injected separator, a text within the maximum sent as one part, and a text of
  2300 characters with maximum 1152 sent as exactly two ordered parts. The model cuts
  the text into consecutive pieces of the maximum length, the last one shorter. The
  spec gives the channel no role in the split, so \<open>SplitMsgByChannel\<close> splits as
  \<open>SplitMsg\<close> does. Lengths are byte counts, as \<^verbatim>\<open>len\<close> of a Go string.
\<close>

function SplitMsg :: "string \<Rightarrow> nat \<Rightarrow> string list" where
  "SplitMsg text maxlen =
     (if maxlen = 0 \<or> length text \<le> maxlen then [text]
      else take maxlen text # SplitMsg (drop maxlen text) maxlen)"
  by pat_completeness auto
termination
  by (relation "measure (\<lambda>(text, maxlen). length text)") auto

declare SplitMsg.simps [simp del]

definition SplitMsgByChannel :: "Channel \<Rightarrow> string \<Rightarrow> nat \<Rightarrow> string list" where
  "SplitMsgByChannel channel text maxlen = SplitMsg text maxlen"

section \<open>Zenvia SMS (handlers/zenvia/zenvia.go)\<close>

definition zv_maxMsgLength :: nat where
  "zv_maxMsgLength = 150"

definition zv_sendURL :: string where
  "zv_sendURL = ''https://api-rest.zenvia360.com.br/services''"

text \<open>\<^verbatim>\<open>strings.TrimLeft(s, "+")\<close>.\<close>

definition TrimLeft_plus :: "string \<Rightarrow> string" where
  "TrimLeft_plus s = dropWhile (\<lambda>c. c = CHR ''+'') s"

text \<open>
  The request of one part. \<^verbatim>\<open>SetBasicAuth\<close> is kept as the pair it encodes.
\<close>

definition zv_request :: "Msg \<Rightarrow> string \<Rightarrow> string \<Rightarrow> string \<Rightarrow> Request" where
  "zv_request msg username password part =
     \<lparr>req_method = ''POST'', req_url = zv_sendURL,
      req_headers = [(''Content-Type'', ''application/json''),
                     (''Accept'', ''application/json''),
                     (''Authorization'', ''Basic '' @ username @ '':'' @ password)],
      req_body = ZvBody ''Sender'' (TrimLeft_plus (msg_urn_path msg)) part (msg_id msg) ''1''\<rparr>"

text \<open>
  The loop over the parts. The status is set to wired after each part that succeeded;
  a transport error or a non-success status code returns at once, with the status as
  it is at that moment.
\<close>

fun zv_send_parts ::
  "env \<Rightarrow> Msg \<Rightarrow> string \<Rightarrow> string \<Rightarrow> string list \<Rightarrow> MsgStatus \<Rightarrow> Request list \<Rightarrow> sent" where
  "zv_send_parts e msg username password [] status calls =
     \<lparr>res_status = Some status, res_error = None, res_calls = calls\<rparr>"
| "zv_send_parts e msg username password (part # parts) status calls =
     (let req = zv_request msg username password part;
          (rr, err) = net e (length calls) req;
          log = WithError ''Message Send Error'' err (NewChannelLogFromRR ''Message Sent'' rr);
          status = AddLog (Some log) status;
          calls = calls @ [req]
      in
      case err of
        Some x \<Rightarrow> \<lparr>res_status = Some status, res_error = Some x, res_calls = calls\<rparr>
      | None \<Rightarrow>
        let responseMsgStatus =
              (case json_GetString e rr [''sendSmsResponse'', ''statusCode''] of
                 Inl _ \<Rightarrow> [] | Inr s \<Rightarrow> s);
            failed = \<lparr>res_status = Some status,
                      res_error = Some (Errorf (''received non-success response from Zenvia ''
                                          @ [CHR 0x27] @ responseMsgStatus @ [CHR 0x27])),
                      res_calls = calls\<rparr>
        in
        (case map_of zv_statusMapping responseMsgStatus of
           None \<Rightarrow> failed
         | Some msgStatus \<Rightarrow>
             if msgStatus = MsgErrored then failed
             else zv_send_parts e msg username password parts
                    (SetStatus MsgWired status) calls))"

definition zv_SendMsg :: "env \<Rightarrow> Msg \<Rightarrow> sent" where
  "zv_SendMsg e msg =
     (let username = StringConfigForKey (msg_channel msg) ConfigUsername [] in
      if username = [] then
        \<lparr>res_status = None, res_error = Some (Errorf ''no username set for ZV channel''),
         res_calls = []\<rparr>
      else
      let password = StringConfigForKey (msg_channel msg) ConfigPassword [] in
      if password = [] then
        \<lparr>res_status = None, res_error = Some (Errorf ''no password set for ZV channel''),
         res_calls = []\<rparr>
      else
      let status = NewMsgStatusForID (msg_id msg) MsgErrored;
          parts = SplitMsg (GetTextAndAttachments e msg) zv_maxMsgLength
      in zv_send_parts e msg username password parts status [])"

section \<open>Zenvia WhatsApp (package zenviawhatsapp)\<close>

subsection \<open>Outbound: SendMsg\<close>

definition zvw_maxMsgLength :: nat where
  "zvw_maxMsgLength = 1152"

definition zvw_sendURL :: string where
  "zvw_sendURL = ''https://api.zenvia.com/v2/channels/whatsapp/messages''"

text \<open>The contents of the payload: one file entry per attachment, then the text parts.\<close>

definition zvw_contents_of :: "env \<Rightarrow> Msg \<Rightarrow> mtContent list" where
  "zvw_contents_of e msg =
     map (\<lambda>attachment.
            let (attType, attURL) = SplitAttachment e attachment in
            \<lparr>mt_type = ''file'', mt_text = [], mt_fileUrl = attURL,
             mt_fileMimeType = attType\<rparr>)
         (msg_attachments msg)
     @
     map (\<lambda>msgPart. \<lparr>mt_type = ''text'', mt_text = msgPart, mt_fileUrl = [],
                       mt_fileMimeType = []\<rparr>)
         (if msg_text msg \<noteq> []
          then SplitMsgByChannel (msg_channel msg) (msg_text msg) zvw_maxMsgLength
          else [])"

text \<open>
  \<^verbatim>\<open>SendMsg\<close>: one request for the whole message. On a transport error, and when the
  response has no \<^verbatim>\<open>id\<close>, the source returns the status with a nil error. In the
  second case the source calls \<^verbatim>\<open>log.WithError\<close> after \<^verbatim>\<open>status.AddLog(log)\<close> and
  drops its result; a log is not changed once it is appended, so the trail of the
  returned status holds the log as it was appended, without that error.
\<close>

definition zvw_SendMsg :: "env \<Rightarrow> Msg \<Rightarrow> sent" where
  "zvw_SendMsg e msg =
     (let token = StringConfigForKey (msg_channel msg) ConfigAPIKey [] in
      if token = [] then
        \<lparr>res_status = None, res_error = Some (Errorf ''no token set for ZVW channel''),
         res_calls = []\<rparr>
      else
      let status = NewMsgStatusForID (msg_id msg) MsgErrored;
          req = \<lparr>req_method = ''POST'', req_url = zvw_sendURL,
                 req_headers = [(''Content-Type'', ''application/json''),
                                (''Accept'', ''application/json''),
                                (''X-API-TOKEN'', token)],
                 req_body = ZvwBody (TrimLeft_plus (ch_address (msg_channel msg)))
                              (TrimLeft_plus (msg_urn_path msg)) (zvw_contents_of e msg)\<rparr>;
          (rr, err) = net e 0 req;
          log = WithError ''Message Send Error'' err (NewChannelLogFromRR ''Message Sent'' rr)
      in
      case err of
        Some x \<Rightarrow>
          \<lparr>res_status = Some (AddLog (Some log) status), res_error = None, res_calls = [req]\<rparr>
      | None \<Rightarrow>
        (case json_GetString e rr [''id''] of
           Inl _ \<Rightarrow>
             \<lparr>res_status = Some (AddLog (Some log) status), res_error = None,
              res_calls = [req]\<rparr>
         | Inr externalID \<Rightarrow>
             \<lparr>res_status =
                Some (SetStatus MsgWired (SetExternalID externalID (AddLog (Some log) status))),
              res_error = None, res_calls = [req]\<rparr>))"

subsection \<open>Inbound: receiveMessage\<close>

text \<open>
  The decoded payload, with the fields the handler reads. Coordinates are 32-bit
  floats in the source; the handler only prints them with \<^verbatim>\<open>%f\<close>, so they are
  kept as an opaque pair of mantissa and exponent and the printing is a parameter.
\<close>

datatype float32 = Float32 int int

record moContent =
  c_Type :: string
  c_Text :: string
  c_FileURL :: string
  c_Longitude :: float32
  c_Latitude :: float32

record zvw_moPayload =
  p_Timestamp :: string
  p_Type :: string
  p_Message_ID :: string
  p_Message_From :: string
  p_Message_Direction :: string
  p_Message_Contents :: "moContent list"
  p_Visitor_Name :: string

text \<open>
  The calls outside the handler: the JSON decoding with its validation,
  \<^verbatim>\<open>time.Parse\<close> with a layout (the instant in UTC seconds, \<open>None\<close> on an error),
  \<^verbatim>\<open>urns.NewWhatsAppURN\<close>, \<^verbatim>\<open>%f\<close> of \<^verbatim>\<open>fmt.Sprintf\<close>, and the Unicode case
  mapping that \<^verbatim>\<open>strings.ToUpper\<close> applies to a string outside ASCII.
\<close>

record zvw_env =
  zvw_DecodeAndValidateJSON :: "string \<Rightarrow> error + zvw_moPayload"
  time_Parse :: "string \<Rightarrow> string \<Rightarrow> int option"
  NewWhatsAppURN :: "string \<Rightarrow> error + URN"
  Sprintf_f :: "float32 \<Rightarrow> string"
  unicode_ToUpper :: "string \<Rightarrow> string"

text \<open>The text and the media URL of one content part, by its type.\<close>

definition zvw_content_text :: "moContent \<Rightarrow> string" where
  "zvw_content_text content = (if c_Type content = ''text'' then c_Text content else [])"

definition zvw_content_mediaURL :: "zvw_env \<Rightarrow> moContent \<Rightarrow> string" where
  "zvw_content_mediaURL e content =
     (if c_Type content = ''text'' then []
      else if c_Type content = ''location'' then
        ''geo:'' @ Sprintf_f e (c_Latitude content) @ '','' @ Sprintf_f e (c_Longitude content)
      else if c_Type content = ''file'' then c_FileURL content
      else [])"

text \<open>
  The body of the loop over the contents: one message per content part, whatever its
  type; a part of an unsupported type is logged through
  \<^verbatim>\<open>courier.LogRequestError\<close> and still gives a message.
\<close>

definition zvw_content_msg ::
  "zvw_env \<Rightarrow> URN \<Rightarrow> string \<Rightarrow> int \<Rightarrow> string \<Rightarrow> moContent \<Rightarrow> InMsg" where
  "zvw_content_msg e urn externalID date contactName content =
     (let text = zvw_content_text content;
          mediaURL = zvw_content_mediaURL e content;
          msg = WithContactName contactName
                  (WithReceivedOn date (WithExternalID externalID (NewIncomingMsg urn text)))
      in if mediaURL \<noteq> [] then WithAttachment mediaURL msg else msg)"

definition zvw_content_logged :: "moContent \<Rightarrow> error list" where
  "zvw_content_logged content =
     (if c_Type content \<in> {''text'', ''location'', ''file''} then []
      else [Errorf (''unsupported message type '' @ c_Type content)])"

text \<open>
  \<^verbatim>\<open>receiveMessage\<close>: the response and the errors logged on the way. An event whose
  type is not \<open>MESSAGE\<close> and a timestamp that does not parse are answered with an
  error; a direction that is not \<open>IN\<close> is ignored.
\<close>

definition zvw_receiveMessage :: "zvw_env \<Rightarrow> HttpRequest \<Rightarrow> response \<times> error list" where
  "zvw_receiveMessage e r =
     (case zvw_DecodeAndValidateJSON e (http_body r) of
        Inl err \<Rightarrow> (WriteAndLogRequestError err, [])
      | Inr payload \<Rightarrow>
      if ToUpper (unicode_ToUpper e) (p_Type payload) \<noteq> ''MESSAGE'' then
        (WriteAndLogRequestError (Errorf (''unsupported event type: '' @ p_Type payload)), [])
      else
      (case time_Parse e ''2006-01-02T15:04:05Z'' (p_Timestamp payload) of
         None \<Rightarrow>
           (WriteAndLogRequestError (Errorf (''invalid date format: '' @ p_Timestamp payload)), [])
       | Some date \<Rightarrow>
      if ToUpper (unicode_ToUpper e) (p_Message_Direction payload) \<noteq> ''IN'' then
        (WriteAndLogRequestIgnored ''ignoring request, not incoming messages'', [])
      else
      (case NewWhatsAppURN e (p_Message_From payload) of
         Inl err \<Rightarrow> (WriteAndLogRequestError err, [])
       | Inr urn \<Rightarrow>
         (WriteMsgsAndResponse
            (map (zvw_content_msg e urn (p_Message_ID payload) date (p_Visitor_Name payload))
               (p_Message_Contents payload)),
          concat (map zvw_content_logged (p_Message_Contents payload))))))"

section \<open>Slack (handlers/slack/slack.go)\<close>

definition sl_apiURL :: string where
  "sl_apiURL = ''https://slack.com/api''"

record FileParams =
  fp_File :: string
  fp_FileName :: string
  fp_Channels :: string

text \<open>
  \<^verbatim>\<open>sendTextMsgPart\<close>: the log, the error and the request issued. The transport
  error goes into the log; the error returned is the one of reading \<^verbatim>\<open>ok\<close> from the
  body, or the provider's error description when \<^verbatim>\<open>ok\<close> is false.
\<close>

definition sendTextMsgPart ::
  "env \<Rightarrow> Msg \<Rightarrow> string \<Rightarrow> nat \<Rightarrow> ChannelLog option \<times> error option \<times> Request list" where
  "sendTextMsgPart e msg token n =
     (let req = \<lparr>req_method = ''POST'', req_url = sl_apiURL @ ''/chat.postMessage'',
                 req_headers = [(''Content-Type'', ''application/json; charset=utf-8''),
                                (''Authorization'', ''Bearer '' @ token)],
                 req_body = SlTextBody (msg_urn_path msg) (msg_text msg)\<rparr>;
          (rr, err) = net e n req;
          log = WithError ''Message Send Error'' err (NewChannelLogFromRR ''Message Sent'' rr)
      in
      case json_GetBoolean e rr [''ok''] of
        Inl x \<Rightarrow> (Some log, Some x, [req])
      | Inr ok \<Rightarrow>
          if \<not> ok then
            (case json_GetString e rr [''error''] of
               Inl x \<Rightarrow> (Some log, Some x, [req])
             | Inr errDescription \<Rightarrow> (Some log, Some (Errorf errDescription), [req]))
          else (Some log, None, [req]))"

text \<open>
  \<^verbatim>\<open>parseAttachmentToFileParams\<close>: fetches the attachment. The error of the fetch is
  recorded in the log and then overwritten by the result of \<^verbatim>\<open>BasePathForURL\<close>.
\<close>

definition parseAttachmentToFileParams ::
  "env \<Rightarrow> Msg \<Rightarrow> string \<Rightarrow> nat \<Rightarrow>
     FileParams option \<times> ChannelLog option \<times> error option \<times> Request list" where
  "parseAttachmentToFileParams e msg attachment n =
     (let (attType, attURL) = SplitAttachment e attachment in
      case NewRequest_err e attURL of
        Some x \<Rightarrow> (None, None, Some (Wrapf x ''error building file request''), [])
      | None \<Rightarrow>
        let req = \<lparr>req_method = ''GET'', req_url = attURL, req_headers = [],
                   req_body = NoBody\<rparr>;
            (resp, err) = net e n req;
            log = WithError ''error fetching media'' err
                    (NewChannelLogFromRR ''Fetching attachment'' resp)
        in
        (case BasePathForURL e attURL of
           Inl x \<Rightarrow> (None, Some log, Some x, [req])
         | Inr filename \<Rightarrow>
             (Some \<lparr>fp_File = resp, fp_FileName = filename, fp_Channels = msg_urn_path msg\<rparr>,
              Some log, None, [req])))"

text \<open>
  \<^verbatim>\<open>sendFilePart\<close>: uploads the file. The multipart form is written into a memory
  buffer, whose writes do not fail, so the three form-field errors of the source have
  no branch here. Every failure returns a nil log with the error.
\<close>

definition sendFilePart ::
  "env \<Rightarrow> Msg \<Rightarrow> string \<Rightarrow> FileParams \<Rightarrow> nat \<Rightarrow>
     ChannelLog option \<times> error option \<times> Request list" where
  "sendFilePart e msg token fileParams n =
     (let req = \<lparr>req_method = ''POST'', req_url = sl_apiURL @ ''/files.upload'',
                 req_headers = [(''Authorization'', ''Bearer '' @ token),
                                (''Content-Type'', ''multipart/form-data'')],
                 req_body = SlFileBody (fp_File fileParams) (fp_FileName fileParams)
                              (fp_Channels fileParams)\<rparr>;
          (resp, err) = net e n req
      in
      case err of
        Some x \<Rightarrow> (None, Some (Wrapf x ''error uploading file to slack''), [req])
      | None \<Rightarrow>
        (case Unmarshal_FileResponse e resp of
           None \<Rightarrow> (None, Some (Errorf ''couldn't unmarshal file response''), [req])
         | Some (ok, errText) \<Rightarrow>
             if \<not> ok then
               (None, Some (Errorf (''error uploading file to slack: '' @ errText @ ''.'')), [req])
             else
               (Some (WithError ''Error uploading file to Slack'' None
                        (NewChannelLogFromRR ''uploading file to Slack'' resp)),
                None, [req])))"

text \<open>
  The loop of \<^verbatim>\<open>SendMsg\<close> over the attachments. Its state is \<open>hasError\<close>, the status
  and the requests issued so far; \<open>hasError\<close> is assigned, not accumulated, at each
  step.
\<close>

fun sl_attachments_loop ::
  "env \<Rightarrow> Msg \<Rightarrow> string \<Rightarrow> string list \<Rightarrow> bool \<times> MsgStatus \<times> Request list \<Rightarrow>
     bool \<times> MsgStatus \<times> Request list" where
  "sl_attachments_loop e msg botToken [] st = st"
| "sl_attachments_loop e msg botToken (attachment # rest) (hasError, status, calls) =
     (let (fileAttachment, log, err, cs) =
            parseAttachmentToFileParams e msg attachment (length calls);
          hasError = (err \<noteq> None);
          status = AddLog log status;
          calls = calls @ cs
      in
      case fileAttachment of
        None \<Rightarrow> sl_attachments_loop e msg botToken rest (hasError, status, calls)
      | Some fp \<Rightarrow>
          let (log, err, cs) = sendFilePart e msg botToken fp (length calls);
              hasError = (err \<noteq> None);
              status = AddLog log status;
              calls = calls @ cs
          in sl_attachments_loop e msg botToken rest (hasError, status, calls))"

definition sl_SendMsg :: "env \<Rightarrow> Msg \<Rightarrow> sent" where
  "sl_SendMsg e msg =
     (let botToken = StringConfigForKey (msg_channel msg) configBotToken [] in
      if botToken = [] then
        \<lparr>res_status = None, res_error = Some (Errorf ''missing bot token for SL/slack channel''),
         res_calls = []\<rparr>
      else
      let status = NewMsgStatusForID (msg_id msg) MsgErrored;
          (hasError, status, calls) =
            sl_attachments_loop e msg botToken (msg_attachments msg) (True, status, []);
          (hasError, status, calls) =
            (if msg_text msg \<noteq> [] then
               let (log, err, cs) = sendTextMsgPart e msg botToken (length calls)
               in (err \<noteq> None, AddLog log status, calls @ cs)
             else (hasError, status, calls));
          status = (if \<not> hasError then SetStatus MsgWired status else status)
      in \<lparr>res_status = Some status, res_error = None, res_calls = calls\<rparr>)"

section \<open>Reading events and results\<close>

text \<open>
  The contents of the text parts and the URLs of the image parts of a FreshChat event,
  in the order of the event, and the last entry of such a list (empty when there is
  none). The collapse of an event into one message is stated with them.
\<close>

definition text_parts :: "MessageParts list \<Rightarrow> string list" where
  "text_parts ds = List.map_filter part_Text ds"

definition image_parts :: "MessageParts list \<Rightarrow> string list" where
  "image_parts ds = List.map_filter part_Image ds"

definition last_or_empty :: "string list \<Rightarrow> string" where
  "last_or_empty xs = (if xs = [] then [] else last xs)"

text \<open>The status value and the log trail that a send returned, when it returned a status.\<close>

definition status_value :: "sent \<Rightarrow> MsgStatusValue option" where
  "status_value r = map_option st_value (res_status r)"

definition status_logs :: "sent \<Rightarrow> ChannelLog option list" where
  "status_logs r = (case res_status r of None \<Rightarrow> [] | Some st \<Rightarrow> st_logs st)"

text \<open>The errors recorded in a log trail, in order.\<close>

definition logged_errors :: "ChannelLog option list \<Rightarrow> error list" where
  "logged_errors ls = List.map_filter (\<lambda>l. case l of None \<Rightarrow> None | Some x \<Rightarrow> log_error x) ls"


text \<open>
  The log that the encoders build for one exchange, from what the transport returned:
  \<^verbatim>\<open>NewChannelLogFromRR("Message Sent", ..., rr).WithError("Message Send Error", err)\<close>
  in FreshChat, Zenvia SMS, Zenvia WhatsApp and the text part of Slack. It holds the
  response snapshot, and the transport error when there is one.
\<close>

definition exchange_log :: "string \<times> error option \<Rightarrow> ChannelLog" where
  "exchange_log x =
     WithError ''Message Send Error'' (snd x) (NewChannelLogFromRR ''Message Sent'' (fst x))"

text \<open>
  A Zenvia SMS part has failed when the transport returned an error or the status code
  of the response is absent from the table or mapped to errored: the two conditions on
  which the loop of \<^verbatim>\<open>SendMsg\<close> returns.
\<close>

definition zv_part_failed :: "env \<Rightarrow> string \<times> error option \<Rightarrow> bool" where
  "zv_part_failed e x =
     (snd x \<noteq> None \<or>
      zv_mapStatus (case json_GetString e (fst x) [''sendSmsResponse'', ''statusCode''] of
                      Inl _ \<Rightarrow> [] | Inr s \<Rightarrow> s) = MsgErrored)"

section \<open>Concrete inputs\<close>

text \<open>
  Concrete channels, messages and environments on which the handlers are evaluated.
  In \<open>scripted_env\<close> the network answers the \<open>n\<close>-th request with the \<open>n\<close>-th
  entry of a script (a transport error past its end), and the response bodies are
  read in the simplest way: the body is the string asked for, and \<open>true\<close> and
  \<open>false\<close> are the booleans.
\<close>

definition scripted_env :: "(string \<times> error option) list \<Rightarrow> env" where
  "scripted_env script =
     \<lparr>net = (\<lambda>n req. if n < length script then script ! n
                       else ([], Some (External ''connection refused''))),
      json_GetString = (\<lambda>b path. if b = [] then Inl (External ''key path not found'')
                                   else Inr b),
      json_GetBoolean = (\<lambda>b path. if b = ''true'' then Inr True
                                    else if b = ''false'' then Inr False
                                    else Inl (External ''key path not found'')),
      SplitAttachment = (\<lambda>a. (''image/jpeg'', a)),
      BasePathForURL = (\<lambda>u. Inr ''file.jpg''),
      GetTextAndAttachments = (\<lambda>m. msg_text m),
      NewRequest_err = (\<lambda>u. None),
      Unmarshal_FileResponse = (\<lambda>b. if b = [] then None
                                      else if b = ''true'' then Some (True, [])
                                      else Some (False, b))\<rparr>"

definition channel_with :: "(string \<rightharpoonup> string) \<Rightarrow> Channel" where
  "channel_with cfg = \<lparr>ch_config = cfg, ch_address = ''+5511999'', ch_schemes = [''freshchat'']\<rparr>"

definition msg_to :: "Channel \<Rightarrow> string \<Rightarrow> string \<Rightarrow> string list \<Rightarrow> Msg" where
  "msg_to c path text atts =
     \<lparr>msg_channel = c, msg_id = 10, msg_urn_path = path, msg_text = text,
      msg_attachments = atts\<rparr>"

definition fc_channel :: Channel where
  "fc_channel = channel_with [''username'' \<mapsto> ''agent-1'', ''auth_token'' \<mapsto> ''tok'']"

definition zv_channel :: Channel where
  "zv_channel = channel_with [''username'' \<mapsto> ''zv-user'', ''password'' \<mapsto> ''zv-pass'']"

definition zvw_channel :: Channel where
  "zvw_channel = channel_with [''api_key'' \<mapsto> ''zvw-token'']"

definition sl_channel_ok :: Channel where
  "sl_channel_ok = channel_with [''bot_token'' \<mapsto> ''xoxb'']"

definition no_config_channel :: Channel where
  "no_config_channel = channel_with Map.empty"

text \<open>
  A library environment for the signature check in which no input is a PEM block, as
  for an empty or garbled key, and one in which the key decodes and parses to the RSA
  key \<open>k1\<close>, whose only valid signature of a digest is the digest itself.
\<close>

definition crypto_no_pem :: crypto where
  "crypto_no_pem =
     \<lparr>pem_Decode = (\<lambda>s. None),
      x509_ParsePKIXPublicKey = (\<lambda>b. Inl ''asn1: syntax error''),
      base64_DecodeString = (\<lambda>s. Inr s),
      sha256_Sum = (\<lambda>s. s),
      rsa_VerifyPKCS1v15 = (\<lambda>key digest sig. Some ''verification error'')\<rparr>"

definition crypto_ok :: crypto where
  "crypto_ok =
     \<lparr>pem_Decode = (\<lambda>s. if s = [] then None else Some s),
      x509_ParsePKIXPublicKey = (\<lambda>b. if b = ''k1'' then Inr (RSAPublicKey b)
                                       else Inl ''asn1: syntax error''),
      base64_DecodeString = (\<lambda>s. if CHR ''!'' \<in> set s then Inl ''illegal base64 data''
                                   else Inr s),
      sha256_Sum = (\<lambda>s. s),
      rsa_VerifyPKCS1v15 = (\<lambda>key digest sig. if sig = digest then None
                                               else Some ''verification error'')\<rparr>"

definition fc_env_with :: "crypto \<Rightarrow> moPayload \<Rightarrow> fc_env" where
  "fc_env_with k payload =
     \<lparr>fc_crypto = k,
      fc_DecodeAndValidateJSON = (\<lambda>b. Inr payload),
      NewURNFromParts = (\<lambda>scheme path query display.
         Inr \<lparr>urn_scheme = scheme, urn_path = path, urn_display = display\<rparr>)\<rparr>"

definition zvw_env_with :: "zvw_moPayload \<Rightarrow> zvw_env" where
  "zvw_env_with payload =
     \<lparr>zvw_DecodeAndValidateJSON = (\<lambda>b. Inr payload),
      time_Parse = (\<lambda>layout s. if s = [] then None else Some 1493791485),
      NewWhatsAppURN = (\<lambda>p. Inr \<lparr>urn_scheme = ''whatsapp'', urn_path = p, urn_display = []\<rparr>),
      Sprintf_f = (\<lambda>f. case f of Float32 m x \<Rightarrow> if m = 0 then ''0.000000'' else ''1.000000''),
      unicode_ToUpper = (\<lambda>s. s)\<rparr>"

definition zvw_payload :: "string \<Rightarrow> string \<Rightarrow> moContent list \<Rightarrow> zvw_moPayload" where
  "zvw_payload type direction contents =
     \<lparr>p_Timestamp = ''2017-05-03T06:04:45Z'', p_Type = type, p_Message_ID = ''m-1'',
      p_Message_From = ''5511988'', p_Message_Direction = direction,
      p_Message_Contents = contents, p_Visitor_Name = ''Ana''\<rparr>"

definition content_of :: "string \<Rightarrow> string \<Rightarrow> string \<Rightarrow> moContent" where
  "content_of type text url =
     \<lparr>c_Type = type, c_Text = text, c_FileURL = url, c_Longitude = Float32 1 0,
      c_Latitude = Float32 0 0\<rparr>"

definition fc_message :: "string \<Rightarrow> string \<Rightarrow> MessageParts list \<Rightarrow> Message" where
  "fc_message actor actorType parts =
     \<lparr>msg_MessageParts = parts, ActorID = actor, ChannelID = ''chan'', ActorType = actorType,
      CreatedTime = 1493791485\<rparr>"

definition no_request :: HttpRequest where
  "no_request = \<lparr>hdr_signature = [], http_body = ''{}''\<rparr>"

section \<open>Properties of the status mapping\<close>

lemma zv_table_rows:
  "zv_mapStatus ''00'' = MsgSent" "zv_mapStatus ''01'' = MsgSent"
  "zv_mapStatus ''02'' = MsgSent" "zv_mapStatus ''03'' = MsgDelivered"
  "zv_mapStatus ''04'' = MsgErrored" "zv_mapStatus ''05'' = MsgErrored"
  "zv_mapStatus ''06'' = MsgErrored" "zv_mapStatus ''07'' = MsgErrored"
  "zv_mapStatus ''08'' = MsgErrored" "zv_mapStatus ''09'' = MsgErrored"
  "zv_mapStatus ''10'' = MsgErrored"
  by (simp_all add: zv_mapStatus_def zv_statusMapping_def)

lemma zv_absent_errored:
  assumes "code \<notin> fst ` set zv_statusMapping"
  shows "zv_mapStatus code = MsgErrored"
proof -
  from assms have "map_of zv_statusMapping code = None"
    by (rule iffD2 [OF map_of_eq_None_iff])
  then show ?thesis by (simp add: zv_mapStatus_def)
qed

lemma isASCII_bytes: "isASCII s \<longleftrightarrow> (\<forall>c \<in> set s. of_char c < (128::nat))"
proof -
  have "of_char c < (128::nat) \<longleftrightarrow> \<not> digit7 c" for c
    by (cases c) simp
  then show ?thesis by (simp add: isASCII_def list_all_iff)
qed

lemma ToUpper_outside_ASCII: "\<not> isASCII s \<Longrightarrow> ToUpper u s = u s"
  by (simp add: ToUpper_def)

lemma zvw_upper_rows:
  "ToUpper u ''REJECTED'' = ''REJECTED''" "ToUpper u ''NOT_DELIVERED'' = ''NOT_DELIVERED''"
  "ToUpper u ''SENT'' = ''SENT''" "ToUpper u ''DELIVERED'' = ''DELIVERED''"
  "ToUpper u ''READ'' = ''READ''" "ToUpper u ''sent'' = ''SENT''"
  by (simp_all add: ToUpper_def isASCII_def upper_table_def)

lemma zvw_table_rows:
  "zvw_mapStatus u ''REJECTED'' = MsgFailed" "zvw_mapStatus u ''NOT_DELIVERED'' = MsgFailed"
  "zvw_mapStatus u ''SENT'' = MsgSent" "zvw_mapStatus u ''DELIVERED'' = MsgDelivered"
  "zvw_mapStatus u ''READ'' = MsgDelivered"
  by (simp_all add: zvw_mapStatus_def zvw_upper_rows zvw_statusMapping_def)

lemma zvw_absent_errored:
  assumes "ToUpper u code \<notin> fst ` set zvw_statusMapping"
  shows "zvw_mapStatus u code = MsgErrored"
proof -
  from assms have "map_of zvw_statusMapping (ToUpper u code) = None"
    by (rule iffD2 [OF map_of_eq_None_iff])
  then show ?thesis by (simp add: zvw_mapStatus_def)
qed

text \<open>
  A code outside ASCII is looked up under its Unicode upper-casing: the bytes of
  U+017F followed by \<open>ent\<close>, which that mapping sends to \<open>SENT\<close>, resolve to sent.
\<close>

lemma zvw_mapStatus_long_s:
  assumes "u [CHR 0xC5, CHR 0xBF, CHR ''e'', CHR ''n'', CHR ''t''] = ''SENT''"
  shows "zvw_mapStatus u [CHR 0xC5, CHR 0xBF, CHR ''e'', CHR ''n'', CHR ''t''] = MsgSent"
  using assms by (simp add: zvw_mapStatus_def ToUpper_def isASCII_def zvw_statusMapping_def)

text \<open>
  Claim C4, as stated, fails for Zenvia WhatsApp: the code \<open>sent\<close> in lower case is not
  a key of the table, and the handler maps it to \<open>MsgSent\<close>, since it upper-cases the
  code before the lookup.
\<close>

theorem zvw_absent_code_not_errored:
  "''sent'' \<notin> fst ` set zvw_statusMapping \<and> (\<forall>u. zvw_mapStatus u ''sent'' = MsgSent)"
  by (simp add: zvw_mapStatus_def zvw_upper_rows zvw_statusMapping_def)

text \<open>
  Claim C4, amended: both handlers implement the documented tables, a Zenvia SMS code
  absent from its table maps to errored, and a Zenvia WhatsApp code whose upper-cased
  form (by \<^verbatim>\<open>strings.ToUpper\<close>, whatever its Unicode mapping) is absent from its table
  maps to errored.
\<close>

theorem status_mapping_tables:
  "zv_mapStatus ''00'' = MsgSent \<and> zv_mapStatus ''01'' = MsgSent \<and>
   zv_mapStatus ''02'' = MsgSent \<and> zv_mapStatus ''03'' = MsgDelivered \<and>
   (\<forall>c \<in> {''04'', ''05'', ''06'', ''07'', ''08'', ''09'', ''10''}. zv_mapStatus c = MsgErrored) \<and>
   zvw_mapStatus u ''REJECTED'' = MsgFailed \<and> zvw_mapStatus u ''NOT_DELIVERED'' = MsgFailed \<and>
   zvw_mapStatus u ''SENT'' = MsgSent \<and> zvw_mapStatus u ''DELIVERED'' = MsgDelivered \<and>
   zvw_mapStatus u ''READ'' = MsgDelivered \<and>
   (code \<notin> fst ` set zv_statusMapping \<longrightarrow> zv_mapStatus code = MsgErrored) \<and>
   (ToUpper u code \<notin> fst ` set zvw_statusMapping \<longrightarrow> zvw_mapStatus u code = MsgErrored)"
  using zv_absent_errored [of code] zvw_absent_errored [of u code]
  by (simp add: zv_table_rows zvw_table_rows)

theorem status_mapping_tables_witness:
  "''11'' \<notin> fst ` set zv_statusMapping \<and> zv_mapStatus ''11'' = MsgErrored \<and>
   (\<forall>u. ToUpper u ''queued'' \<notin> fst ` set zvw_statusMapping \<and>
        zvw_mapStatus u ''queued'' = MsgErrored) \<and>
   zv_mapStatus ''07'' = MsgErrored"
proof -
  have up: "ToUpper u ''queued'' = ''QUEUED''" for u
    by (simp add: ToUpper_def isASCII_def upper_table_def)
  have a: "''11'' \<notin> fst ` set zv_statusMapping"
    by (simp add: zv_statusMapping_def)
  have b: "ToUpper u ''queued'' \<notin> fst ` set zvw_statusMapping" for u
    by (simp add: up zvw_statusMapping_def)
  from a status_mapping_tables [of _ "''11''"] have c: "zv_mapStatus ''11'' = MsgErrored"
    by blast
  from b status_mapping_tables [of _ "''queued''"]
  have d: "zvw_mapStatus u ''queued'' = MsgErrored" for u
    by blast
  from status_mapping_tables [of _ "''11''"] have e: "zv_mapStatus ''07'' = MsgErrored"
    by blast
  from a b c d e show ?thesis by blast
qed

section \<open>FreshChat: the URN path of an outbound message\<close>

lemma Split_nonempty: "Split s sep \<noteq> []"
  by (induction s) (auto split: list.splits)

lemma Split_no_sep: "sep \<notin> set s \<Longrightarrow> Split s sep = [s]"
  by (induction s) auto

lemma Split_with_sep: "sep \<in> set s \<Longrightarrow> 2 \<le> length (Split s sep)"
proof (induction s)
  case Nil
  then show ?case by simp
next
  case (Cons c cs)
  show ?case
  proof (cases "c = sep")
    case True
    have "1 \<le> length (Split cs sep)"
      using Split_nonempty [of cs sep] by (cases "Split cs sep") auto
    with True show ?thesis by simp
  next
    case False
    with Cons.prems have "sep \<in> set cs" by auto
    from Cons.IH [OF this] False show ?thesis
      by (cases "Split cs sep") auto
  qed
qed

text \<open>
  Claim C9: with both credentials configured, \<open>SendMsg\<close> of FreshChat panics with an
  index out of range exactly when the URN path has no \<open>/\<close>; it returns no error for
  such a path.
\<close>

theorem fc_SendMsg_panics_without_slash:
  assumes "StringConfigForKey (msg_channel msg) ConfigUsername [] \<noteq> []"
    and "StringConfigForKey (msg_channel msg) ConfigAuthToken [] \<noteq> []"
  shows "(CHR ''/'' \<notin> set (msg_urn_path msg) \<longrightarrow>
            fc_SendMsg e msg = Panicked ''index out of range [1] with length 1'') \<and>
         (CHR ''/'' \<in> set (msg_urn_path msg) \<longrightarrow> (\<exists>r. fc_SendMsg e msg = Returned r))"
proof (intro conjI impI)
  assume "CHR ''/'' \<notin> set (msg_urn_path msg)"
  then have "Split (msg_urn_path msg) CHR ''/'' = [msg_urn_path msg]"
    by (rule Split_no_sep)
  with assms show "fc_SendMsg e msg = Panicked ''index out of range [1] with length 1''"
    by (simp add: fc_SendMsg_def Let_def)
next
  assume "CHR ''/'' \<in> set (msg_urn_path msg)"
  then have "2 \<le> length (Split (msg_urn_path msg) CHR ''/'')"
    by (rule Split_with_sep)
  then have "\<not> length (Split (msg_urn_path msg) CHR ''/'') < 2" by simp
  with assms show "\<exists>r. fc_SendMsg e msg = Returned r"
    by (simp add: fc_SendMsg_def Let_def split: prod.splits option.splits)
qed

lemma fc_channel_credentials:
  "StringConfigForKey fc_channel ConfigUsername [] = ''agent-1''"
  "StringConfigForKey fc_channel ConfigAuthToken [] = ''tok''"
  by (simp_all add: StringConfigForKey_def fc_channel_def channel_with_def
        ConfigUsername_def ConfigAuthToken_def)

theorem fc_SendMsg_panics_without_slash_witness:
  "fc_SendMsg (scripted_env []) (msg_to fc_channel ''user-7'' ''hi'' []) =
     Panicked ''index out of range [1] with length 1'' \<and>
   (\<exists>r. fc_SendMsg (scripted_env []) (msg_to fc_channel ''chan/user-7'' ''hi'' []) = Returned r)"
proof -
  have a: "CHR ''/'' \<notin> set (msg_urn_path (msg_to fc_channel ''user-7'' ''hi'' []))"
    by (simp add: msg_to_def)
  have b: "CHR ''/'' \<in> set (msg_urn_path (msg_to fc_channel ''chan/user-7'' ''hi'' []))"
    by (simp add: msg_to_def)
  have c: "StringConfigForKey (msg_channel (msg_to fc_channel p ''hi'' [])) ConfigUsername [] \<noteq> []"
          "StringConfigForKey (msg_channel (msg_to fc_channel p ''hi'' [])) ConfigAuthToken [] \<noteq> []"
    for p
    by (simp_all add: msg_to_def fc_channel_credentials)
  from fc_SendMsg_panics_without_slash [OF c, of "''user-7''" "scripted_env []"] a
  have 1: "fc_SendMsg (scripted_env []) (msg_to fc_channel ''user-7'' ''hi'' []) =
     Panicked ''index out of range [1] with length 1''"
    by blast
  from fc_SendMsg_panics_without_slash [OF c, of "''chan/user-7''" "scripted_env []"] b
  have 2: "\<exists>r. fc_SendMsg (scripted_env []) (msg_to fc_channel ''chan/user-7'' ''hi'' []) = Returned r"
    by blast
  from 1 2 show ?thesis by blast
qed

section \<open>FreshChat: signature verification\<close>

text \<open>
  Claim C1 does not hold of the code: when the configured key holds no PEM block (an
  empty or garbled value), \<open>validateSignature\<close> panics on the nil block, and when
  the block does not parse as a public key it panics by an explicit call. The other
  failures are returned as errors.
\<close>

theorem validateSignature_panics_on_bad_key:
  assumes "validateSignatures h" and "hdr_signature r \<noteq> []"
  shows "(pem_Decode k (StringConfigForKey c ConfigPassword []) = None \<longrightarrow>
            validateSignature k h c r =
              Panicked ''invalid memory address or nil pointer dereference'') \<and>
         (\<forall>b x. pem_Decode k (StringConfigForKey c ConfigPassword []) = Some b \<and>
                 x509_ParsePKIXPublicKey k b = Inl x \<longrightarrow>
            validateSignature k h c r =
              Panicked (''failed to parse DER encoded public key: '' @ x))"
  using assms by (simp add: validateSignature_def Let_def)

theorem validateSignature_panics_on_bad_key_witness:
  "validateSignature crypto_no_pem \<lparr>validateSignatures = True\<rparr> no_config_channel
     \<lparr>hdr_signature = ''c2lnbmF0dXJl'', http_body = ''{}''\<rparr> =
   Panicked ''invalid memory address or nil pointer dereference''"
proof -
  have "pem_Decode crypto_no_pem (StringConfigForKey no_config_channel ConfigPassword []) = None"
    by (simp add: crypto_no_pem_def)
  with validateSignature_panics_on_bad_key
         [of "\<lparr>validateSignatures = True\<rparr>"
             "\<lparr>hdr_signature = ''c2lnbmF0dXJl'', http_body = ''{}''\<rparr>"
             crypto_no_pem no_config_channel]
  show ?thesis by simp
qed

section \<open>FreshChat: one message per event\<close>

lemma map_filter_Cons:
  "List.map_filter f (x # xs) =
     (case f x of None \<Rightarrow> List.map_filter f xs | Some y \<Rightarrow> y # List.map_filter f xs)"
  by (simp add: List.map_filter_def split: option.splits)

lemma map_filter_Nil: "List.map_filter f [] = []"
  by (simp add: List.map_filter_def)

lemma fc_parts_loop_last:
  "fc_parts_loop ds (t, u) =
     (if text_parts ds = [] then t else last (text_parts ds),
      if image_parts ds = [] then u else last (image_parts ds))"
proof (induction ds arbitrary: t u)
  case Nil
  then show ?case by (simp add: text_parts_def image_parts_def map_filter_Nil)
next
  case (Cons d ds)
  show ?case
    by (cases "part_Text d"; cases "part_Image d")
       (simp_all add: Cons.IH, simp_all add: text_parts_def image_parts_def map_filter_Cons)
qed

lemma fc_parts_loop_start:
  "fc_parts_loop ds ([], []) = (last_or_empty (text_parts ds), last_or_empty (image_parts ds))"
  by (simp add: fc_parts_loop_last last_or_empty_def)

text \<open>
  Claim C10: an event that passes the signature check, the decoding and the two
  filters, on a channel with a scheme and with a URN that builds, gives exactly one
  message, whatever its parts: the text is the content of the last text part, the only
  attachment is the URL of the last image part (none when there is no image part or
  that URL is empty), and the content of every earlier part is dropped.
\<close>

theorem fc_receiveMessage_collapses_parts:
  assumes "validateSignature (fc_crypto e) h channel r = Returned None"
    and "fc_DecodeAndValidateJSON e (http_body r) = Inr payload"
    and "Data_Message payload = Some m"
    and "ActorID m \<noteq> []" and "ActorType m \<noteq> ''agent''"
    and "ch_schemes channel = scheme # ss"
    and "NewURNFromParts e scheme (ChannelID m @ ''/'' @ ActorID m) [] [] = Inr urn"
  shows "\<exists>msg. fc_receiveMessage e h channel r = Returned (WriteMsgsAndResponse [msg]) \<and>
           in_urn msg = urn \<and> in_received_on msg = CreatedTime m \<and>
           in_text msg = last_or_empty (text_parts (msg_MessageParts m)) \<and>
           in_attachments msg =
             (if last_or_empty (image_parts (msg_MessageParts m)) = [] then []
              else [last_or_empty (image_parts (msg_MessageParts m))]) \<and>
           length (in_attachments msg) \<le> 1"
  using assms
  by (simp add: fc_receiveMessage_def fc_parts_loop_start Let_def NewIncomingMsg_def
        WithReceivedOn_def WithAttachment_def)

lemma validateSignature_disabled:
  "validateSignature k \<lparr>validateSignatures = False\<rparr> c r = Returned None"
  by (simp add: validateSignature_def)

theorem fc_receiveMessage_collapses_parts_witness:
  "\<exists>msg. fc_receiveMessage
      (fc_env_with crypto_ok
         \<lparr>Data_Message = Some (fc_message ''user-7'' ''user''
            [\<lparr>part_Text = Some ''first'', part_Image = None\<rparr>,
             \<lparr>part_Text = None, part_Image = Some ''http://a/1.png''\<rparr>,
             \<lparr>part_Text = Some ''second'', part_Image = Some ''http://a/2.png''\<rparr>])\<rparr>)
      \<lparr>validateSignatures = False\<rparr> fc_channel no_request
    = Returned (WriteMsgsAndResponse [msg]) \<and>
    in_text msg = ''second'' \<and> in_attachments msg = [''http://a/2.png'']"
proof -
  let ?parts = "[\<lparr>part_Text = Some ''first'', part_Image = None\<rparr>,
             \<lparr>part_Text = None, part_Image = Some ''http://a/1.png''\<rparr>,
             \<lparr>part_Text = Some ''second'', part_Image = Some ''http://a/2.png''\<rparr>]"
  let ?m = "fc_message ''user-7'' ''user'' ?parts"
  let ?p = "\<lparr>Data_Message = Some ?m\<rparr>"
  let ?e = "fc_env_with crypto_ok ?p"
  let ?urn = "\<lparr>urn_scheme = ''freshchat'', urn_path = ''chan/user-7'', urn_display = []\<rparr>"
  have 1: "validateSignature (fc_crypto ?e) \<lparr>validateSignatures = False\<rparr> fc_channel no_request
             = Returned None"
    by (rule validateSignature_disabled)
  have 2: "fc_DecodeAndValidateJSON ?e (http_body no_request) = Inr ?p"
    by (simp add: fc_env_with_def)
  have 3: "Data_Message ?p = Some ?m" by simp
  have 4: "ActorID ?m \<noteq> []" "ActorType ?m \<noteq> ''agent''"
    by (simp_all add: fc_message_def)
  have 5: "ch_schemes fc_channel = ''freshchat'' # []"
    by (simp add: fc_channel_def channel_with_def)
  have 6: "NewURNFromParts ?e ''freshchat'' (ChannelID ?m @ ''/'' @ ActorID ?m) [] [] = Inr ?urn"
    by (simp add: fc_env_with_def fc_message_def)
  have t: "last_or_empty (text_parts (msg_MessageParts ?m)) = ''second''"
    by (simp add: fc_message_def text_parts_def map_filter_Cons map_filter_Nil last_or_empty_def)
  have i: "last_or_empty (image_parts (msg_MessageParts ?m)) = ''http://a/2.png''"
    by (simp add: fc_message_def image_parts_def map_filter_Cons map_filter_Nil last_or_empty_def)
  from fc_receiveMessage_collapses_parts [OF 1 2 3 4 5 6]
  show ?thesis unfolding t i by auto
qed

section \<open>Zenvia WhatsApp: one message per content part\<close>

lemma zvw_content_msg_shared:
  "in_urn (zvw_content_msg e urn x date name c) = urn"
  "in_received_on (zvw_content_msg e urn x date name c) = date"
  "in_contact_name (zvw_content_msg e urn x date name c) = name"
  "in_external_id (zvw_content_msg e urn x date name c) = x"
  "in_text (zvw_content_msg e urn x date name c) = zvw_content_text c"
  "in_attachments (zvw_content_msg e urn x date name c) =
     (if zvw_content_mediaURL e c = [] then [] else [zvw_content_mediaURL e c])"
  by (simp_all add: zvw_content_msg_def Let_def NewIncomingMsg_def WithExternalID_def
        WithReceivedOn_def WithContactName_def WithAttachment_def)

lemma zvw_content_by_type:
  "c_Type c = ''text'' \<Longrightarrow> zvw_content_text c = c_Text c \<and> zvw_content_mediaURL e c = []"
  "c_Type c = ''file'' \<Longrightarrow> zvw_content_text c = [] \<and> zvw_content_mediaURL e c = c_FileURL c"
  "c_Type c = ''location'' \<Longrightarrow> zvw_content_text c = [] \<and>
     zvw_content_mediaURL e c =
       ''geo:'' @ Sprintf_f e (c_Latitude c) @ '','' @ Sprintf_f e (c_Longitude c)"
  by (simp_all add: zvw_content_text_def zvw_content_mediaURL_def)

lemma zvw_receiveMessage_accepts:
  assumes "zvw_DecodeAndValidateJSON e (http_body r) = Inr payload"
    and "ToUpper (unicode_ToUpper e) (p_Type payload) = ''MESSAGE''"
    and "time_Parse e ''2006-01-02T15:04:05Z'' (p_Timestamp payload) = Some date"
    and "ToUpper (unicode_ToUpper e) (p_Message_Direction payload) = ''IN''"
    and "NewWhatsAppURN e (p_Message_From payload) = Inr urn"
  shows "fst (zvw_receiveMessage e r) =
           WriteMsgsAndResponse
             (map (zvw_content_msg e urn (p_Message_ID payload) date (p_Visitor_Name payload))
                (p_Message_Contents payload))"
  using assms by (simp add: zvw_receiveMessage_def)

text \<open>
  Claim C5: an inbound Zenvia WhatsApp message event (type \<open>MESSAGE\<close>, direction
  \<open>IN\<close>, a timestamp that parses, a sender that gives a URN) with N content parts
  gives exactly N messages, the i-th from the i-th part, all with the same sender URN,
  received timestamp and contact name. A text part gives the message text and no
  attachment; a file part attaches its file URL (nothing when the URL is empty); a
  location part attaches the URL \<open>geo:lat,lon\<close>.
\<close>

theorem zvw_receiveMessage_fans_out:
  assumes "zvw_DecodeAndValidateJSON e (http_body r) = Inr payload"
    and "ToUpper (unicode_ToUpper e) (p_Type payload) = ''MESSAGE''"
    and "time_Parse e ''2006-01-02T15:04:05Z'' (p_Timestamp payload) = Some date"
    and "ToUpper (unicode_ToUpper e) (p_Message_Direction payload) = ''IN''"
    and "NewWhatsAppURN e (p_Message_From payload) = Inr urn"
  shows "\<exists>msgs. fst (zvw_receiveMessage e r) = WriteMsgsAndResponse msgs \<and>
           length msgs = length (p_Message_Contents payload) \<and>
           (\<forall>i < length msgs.
              in_urn (msgs ! i) = urn \<and> in_received_on (msgs ! i) = date \<and>
              in_contact_name (msgs ! i) = p_Visitor_Name payload \<and>
              (c_Type (p_Message_Contents payload ! i) = ''text'' \<longrightarrow>
                 in_text (msgs ! i) = c_Text (p_Message_Contents payload ! i) \<and>
                 in_attachments (msgs ! i) = []) \<and>
              (c_Type (p_Message_Contents payload ! i) = ''file'' \<longrightarrow>
                 in_text (msgs ! i) = [] \<and>
                 in_attachments (msgs ! i) =
                   (if c_FileURL (p_Message_Contents payload ! i) = [] then []
                    else [c_FileURL (p_Message_Contents payload ! i)])) \<and>
              (c_Type (p_Message_Contents payload ! i) = ''location'' \<longrightarrow>
                 in_text (msgs ! i) = [] \<and>
                 in_attachments (msgs ! i) =
                   [''geo:'' @ Sprintf_f e (c_Latitude (p_Message_Contents payload ! i)) @ '','' @
                    Sprintf_f e (c_Longitude (p_Message_Contents payload ! i))]))"
proof -
  let ?f = "zvw_content_msg e urn (p_Message_ID payload) date (p_Visitor_Name payload)"
  let ?cs = "p_Message_Contents payload"
  have r: "fst (zvw_receiveMessage e r) = WriteMsgsAndResponse (map ?f ?cs)"
    using assms by (rule zvw_receiveMessage_accepts)
  have "\<forall>i < length (map ?f ?cs).
              in_urn (map ?f ?cs ! i) = urn \<and> in_received_on (map ?f ?cs ! i) = date \<and>
              in_contact_name (map ?f ?cs ! i) = p_Visitor_Name payload \<and>
              (c_Type (?cs ! i) = ''text'' \<longrightarrow>
                 in_text (map ?f ?cs ! i) = c_Text (?cs ! i) \<and>
                 in_attachments (map ?f ?cs ! i) = []) \<and>
              (c_Type (?cs ! i) = ''file'' \<longrightarrow>
                 in_text (map ?f ?cs ! i) = [] \<and>
                 in_attachments (map ?f ?cs ! i) =
                   (if c_FileURL (?cs ! i) = [] then [] else [c_FileURL (?cs ! i)])) \<and>
              (c_Type (?cs ! i) = ''location'' \<longrightarrow>
                 in_text (map ?f ?cs ! i) = [] \<and>
                 in_attachments (map ?f ?cs ! i) =
                   [''geo:'' @ Sprintf_f e (c_Latitude (?cs ! i)) @ '','' @
                    Sprintf_f e (c_Longitude (?cs ! i))])"
    by (simp add: zvw_content_msg_shared zvw_content_by_type)
  with r show ?thesis
    by (intro exI [of _ "map ?f ?cs"]) simp
qed

lemma ToUpper_samples:
  "ToUpper u ''MESSAGE'' = ''MESSAGE''" "ToUpper u ''message'' = ''MESSAGE''"
  "ToUpper u ''IN'' = ''IN''" "ToUpper u ''OUT'' = ''OUT''"
  "ToUpper u ''MESSAGE_STATUS'' = ''MESSAGE_STATUS''"
  by (simp_all add: ToUpper_def isASCII_def upper_table_def)

theorem zvw_receiveMessage_fans_out_witness:
  "\<exists>msgs. fst (zvw_receiveMessage
       (zvw_env_with (zvw_payload ''message'' ''IN''
          [content_of ''text'' ''hello'' [], content_of ''file'' [] ''http://a/1.png'',
           content_of ''location'' [] []]))
       no_request) = WriteMsgsAndResponse msgs \<and>
     length msgs = 3 \<and>
     in_text (msgs ! 0) = ''hello'' \<and> in_attachments (msgs ! 0) = [] \<and>
     in_attachments (msgs ! 1) = [''http://a/1.png''] \<and>
     in_attachments (msgs ! 2) = [''geo:0.000000,1.000000''] \<and>
     in_urn (msgs ! 0) = in_urn (msgs ! 2) \<and> in_urn (msgs ! 1) = in_urn (msgs ! 2) \<and>
     in_received_on (msgs ! 0) = 1493791485 \<and> in_received_on (msgs ! 1) = 1493791485 \<and>
     in_received_on (msgs ! 2) = 1493791485 \<and> in_contact_name (msgs ! 2) = ''Ana''"
proof -
  let ?cs = "[content_of ''text'' ''hello'' [], content_of ''file'' [] ''http://a/1.png'',
           content_of ''location'' [] []]"
  let ?p = "zvw_payload ''message'' ''IN'' ?cs"
  let ?e = "zvw_env_with ?p"
  let ?urn = "\<lparr>urn_scheme = ''whatsapp'', urn_path = ''5511988'', urn_display = []\<rparr>"
  have 1: "zvw_DecodeAndValidateJSON ?e (http_body no_request) = Inr ?p"
    by (simp add: zvw_env_with_def)
  have 2: "ToUpper (unicode_ToUpper ?e) (p_Type ?p) = ''MESSAGE''"
    by (simp add: zvw_payload_def ToUpper_samples)
  have 3: "time_Parse ?e ''2006-01-02T15:04:05Z'' (p_Timestamp ?p) = Some 1493791485"
    by (simp add: zvw_env_with_def zvw_payload_def)
  have 4: "ToUpper (unicode_ToUpper ?e) (p_Message_Direction ?p) = ''IN''"
    by (simp add: zvw_payload_def ToUpper_samples)
  have 5: "NewWhatsAppURN ?e (p_Message_From ?p) = Inr ?urn"
    by (simp add: zvw_env_with_def zvw_payload_def)
  have cs: "p_Message_Contents ?p = ?cs" "p_Visitor_Name ?p = ''Ana''"
    by (simp_all add: zvw_payload_def)
  have ty: "c_Type (?cs ! 0) = ''text''" "c_Type (?cs ! 1) = ''file''"
     "c_Type (?cs ! Suc (Suc 0)) = ''location''"
     "c_Text (?cs ! 0) = ''hello''" "c_FileURL (?cs ! 1) = ''http://a/1.png''"
     "Sprintf_f ?e (c_Latitude (?cs ! Suc (Suc 0))) = ''0.000000''"
     "Sprintf_f ?e (c_Longitude (?cs ! Suc (Suc 0))) = ''1.000000''"
    by (simp_all add: content_of_def zvw_env_with_def)
  from zvw_receiveMessage_fans_out [OF 1 2 3 4 5] obtain msgs where
    m: "fst (zvw_receiveMessage ?e no_request) = WriteMsgsAndResponse msgs"
    and l: "length msgs = length (p_Message_Contents ?p)"
    and a: "\<forall>i < length msgs.
              in_urn (msgs ! i) = ?urn \<and> in_received_on (msgs ! i) = 1493791485 \<and>
              in_contact_name (msgs ! i) = p_Visitor_Name ?p \<and>
              (c_Type (p_Message_Contents ?p ! i) = ''text'' \<longrightarrow>
                 in_text (msgs ! i) = c_Text (p_Message_Contents ?p ! i) \<and>
                 in_attachments (msgs ! i) = []) \<and>
              (c_Type (p_Message_Contents ?p ! i) = ''file'' \<longrightarrow>
                 in_text (msgs ! i) = [] \<and>
                 in_attachments (msgs ! i) =
                   (if c_FileURL (p_Message_Contents ?p ! i) = [] then []
                    else [c_FileURL (p_Message_Contents ?p ! i)])) \<and>
              (c_Type (p_Message_Contents ?p ! i) = ''location'' \<longrightarrow>
                 in_text (msgs ! i) = [] \<and>
                 in_attachments (msgs ! i) =
                   [''geo:'' @ Sprintf_f ?e (c_Latitude (p_Message_Contents ?p ! i)) @ '','' @
                    Sprintf_f ?e (c_Longitude (p_Message_Contents ?p ! i))])"
    by blast
  from l have l3: "length msgs = 3" by (simp add: cs)
  from a l3 have a0: "in_urn (msgs ! 0) = ?urn \<and> in_received_on (msgs ! 0) = 1493791485 \<and>
       in_text (msgs ! 0) = ''hello'' \<and> in_attachments (msgs ! 0) = []"
    unfolding cs using ty(1) ty(4) by (metis zero_less_numeral)
  have "(1::nat) < 3" by simp
  with a l3 have a1': "in_urn (msgs ! 1) = ?urn \<and> in_received_on (msgs ! 1) = 1493791485 \<and>
       (c_Type (?cs ! 1) = ''file'' \<longrightarrow> in_attachments (msgs ! 1) =
          (if c_FileURL (?cs ! 1) = [] then [] else [c_FileURL (?cs ! 1)]))"
    unfolding cs by metis
  then have a1: "in_urn (msgs ! 1) = ?urn \<and> in_received_on (msgs ! 1) = 1493791485 \<and>
       in_attachments (msgs ! 1) = [''http://a/1.png'']"
    using ty(2) ty(5) by simp
  have "Suc (Suc 0) < 3" by simp
  with a l3 have a2': "in_urn (msgs ! Suc (Suc 0)) = ?urn \<and>
       in_received_on (msgs ! Suc (Suc 0)) = 1493791485 \<and>
       in_contact_name (msgs ! Suc (Suc 0)) = ''Ana'' \<and>
       (c_Type (?cs ! Suc (Suc 0)) = ''location'' \<longrightarrow> in_attachments (msgs ! Suc (Suc 0)) =
          [''geo:'' @ Sprintf_f ?e (c_Latitude (?cs ! Suc (Suc 0))) @ '','' @
                    Sprintf_f ?e (c_Longitude (?cs ! Suc (Suc 0)))])"
    unfolding cs by metis
  then have a2: "in_urn (msgs ! 2) = ?urn \<and> in_received_on (msgs ! 2) = 1493791485 \<and>
       in_contact_name (msgs ! 2) = ''Ana'' \<and>
       in_attachments (msgs ! 2) = [''geo:0.000000,1.000000'']"
    using ty(3) ty(6) ty(7) by (simp add: numeral_2_eq_2)
  from m l3 a0 a1 a2 show ?thesis by (intro exI [of _ msgs]) simp
qed

section \<open>Inbound events that are dropped\<close>

text \<open>
  Claim C7, as stated, fails for Zenvia WhatsApp: an event whose declared type is not a
  message event is answered with an error response, not with an ignored
  acknowledgment (the type is ASCII, so the Unicode mapping has no part in it).
\<close>

theorem zvw_wrong_type_is_an_error:
  "\<forall>u. fst (zvw_receiveMessage
              ((zvw_env_with (zvw_payload ''MESSAGE_STATUS'' ''IN'' []))\<lparr>unicode_ToUpper := u\<rparr>)
              no_request) =
     WriteAndLogRequestError (Errorf ''unsupported event type: MESSAGE_STATUS'')"
  by (simp add: zvw_receiveMessage_def zvw_env_with_def zvw_payload_def ToUpper_samples)

text \<open>
  Claim C7, amended: a FreshChat event that passes the signature check and the decoding
  and carries a message with an empty actor id or the actor type \<open>agent\<close>, and a
  Zenvia WhatsApp message event with a timestamp that parses and a direction whose
  upper-casing by \<^verbatim>\<open>strings.ToUpper\<close> is not \<open>IN\<close>, produce no message and are
  acknowledged as ignored; a Zenvia WhatsApp event whose type does not upper-case to
  \<open>MESSAGE\<close> is answered with an error response.
\<close>

theorem dropped_events_are_ignored:
  "(validateSignature (fc_crypto fe) h channel r = Returned None \<and>
    fc_DecodeAndValidateJSON fe (http_body r) = Inr fp \<and> Data_Message fp = Some m \<and>
    (ActorID m = [] \<or> ActorType m = ''agent'') \<longrightarrow>
      (\<exists>t. fc_receiveMessage fe h channel r = Returned (WriteAndLogRequestIgnored t))) \<and>
   (zvw_DecodeAndValidateJSON ze (http_body r') = Inr zp \<and>
    ToUpper (unicode_ToUpper ze) (p_Type zp) = ''MESSAGE'' \<and>
    time_Parse ze ''2006-01-02T15:04:05Z'' (p_Timestamp zp) = Some date \<and>
    ToUpper (unicode_ToUpper ze) (p_Message_Direction zp) \<noteq> ''IN'' \<longrightarrow>
      zvw_receiveMessage ze r' =
        (WriteAndLogRequestIgnored ''ignoring request, not incoming messages'', [])) \<and>
   (zvw_DecodeAndValidateJSON ze (http_body r') = Inr zp \<and>
    ToUpper (unicode_ToUpper ze) (p_Type zp) \<noteq> ''MESSAGE'' \<longrightarrow>
      (\<exists>x. zvw_receiveMessage ze r' = (WriteAndLogRequestError x, [])))"
  by (auto simp add: fc_receiveMessage_def zvw_receiveMessage_def)

theorem dropped_events_are_ignored_witness:
  "(\<exists>t. fc_receiveMessage
      (fc_env_with crypto_ok \<lparr>Data_Message = Some (fc_message ''agent-1'' ''agent'' [])\<rparr>)
      \<lparr>validateSignatures = False\<rparr> fc_channel no_request =
        Returned (WriteAndLogRequestIgnored t)) \<and>
   zvw_receiveMessage (zvw_env_with (zvw_payload ''MESSAGE'' ''OUT'' [])) no_request =
     (WriteAndLogRequestIgnored ''ignoring request, not incoming messages'', []) \<and>
   (\<exists>x. zvw_receiveMessage (zvw_env_with (zvw_payload ''MESSAGE_STATUS'' ''IN'' [])) no_request =
     (WriteAndLogRequestError x, []))"
proof -
  let ?m = "fc_message ''agent-1'' ''agent'' []"
  let ?fp = "\<lparr>Data_Message = Some ?m\<rparr>"
  let ?fe = "fc_env_with crypto_ok ?fp"
  let ?h = "\<lparr>validateSignatures = False\<rparr>"
  let ?z1 = "zvw_payload ''MESSAGE'' ''OUT'' []"
  let ?z2 = "zvw_payload ''MESSAGE_STATUS'' ''IN'' []"
  have f: "validateSignature (fc_crypto ?fe) ?h fc_channel no_request = Returned None \<and>
    fc_DecodeAndValidateJSON ?fe (http_body no_request) = Inr ?fp \<and>
    Data_Message ?fp = Some ?m \<and> (ActorID ?m = [] \<or> ActorType ?m = ''agent'')"
    by (simp add: validateSignature_disabled fc_env_with_def fc_message_def)
  have z1: "zvw_DecodeAndValidateJSON (zvw_env_with ?z1) (http_body no_request) = Inr ?z1 \<and>
    ToUpper (unicode_ToUpper (zvw_env_with ?z1)) (p_Type ?z1) = ''MESSAGE'' \<and>
    time_Parse (zvw_env_with ?z1) ''2006-01-02T15:04:05Z'' (p_Timestamp ?z1) = Some 1493791485 \<and>
    ToUpper (unicode_ToUpper (zvw_env_with ?z1)) (p_Message_Direction ?z1) \<noteq> ''IN''"
    by (simp add: zvw_env_with_def zvw_payload_def ToUpper_samples)
  have z2: "zvw_DecodeAndValidateJSON (zvw_env_with ?z2) (http_body no_request) = Inr ?z2 \<and>
    ToUpper (unicode_ToUpper (zvw_env_with ?z2)) (p_Type ?z2) \<noteq> ''MESSAGE''"
    by (simp add: zvw_env_with_def zvw_payload_def ToUpper_samples)
  from f dropped_events_are_ignored
         [of ?fe ?h fc_channel no_request ?fp ?m "zvw_env_with ?z1" no_request ?z1 1493791485]
  have a: "\<exists>t. fc_receiveMessage ?fe ?h fc_channel no_request =
              Returned (WriteAndLogRequestIgnored t)"
    by blast
  from z1 dropped_events_are_ignored
         [of ?fe ?h fc_channel no_request ?fp ?m "zvw_env_with ?z1" no_request ?z1 1493791485]
  have b: "zvw_receiveMessage (zvw_env_with ?z1) no_request =
     (WriteAndLogRequestIgnored ''ignoring request, not incoming messages'', [])"
    by blast
  from z2 dropped_events_are_ignored
         [of ?fe ?h fc_channel no_request ?fp ?m "zvw_env_with ?z2" no_request ?z2 1493791485]
  have c: "\<exists>x. zvw_receiveMessage (zvw_env_with ?z2) no_request =
     (WriteAndLogRequestError x, [])"
    by blast
  from a b c show ?thesis by blast
qed

section \<open>Outbound: missing credentials\<close>

text \<open>
  Claim C8: when a required credential is missing from the channel configuration
  (username or password for Zenvia SMS, API token for Zenvia WhatsApp, agent id or auth
  token for FreshChat, bot token for Slack), \<open>SendMsg\<close> returns an error at once: no
  request is issued and no status is created.
\<close>

theorem missing_credential_sends_nothing:
  "(StringConfigForKey (msg_channel msg) ConfigUsername [] = [] \<or>
    StringConfigForKey (msg_channel msg) ConfigPassword [] = [] \<longrightarrow>
      res_status (zv_SendMsg e msg) = None \<and> res_error (zv_SendMsg e msg) \<noteq> None \<and>
      res_calls (zv_SendMsg e msg) = []) \<and>
   (StringConfigForKey (msg_channel msg) ConfigAPIKey [] = [] \<longrightarrow>
      res_status (zvw_SendMsg e msg) = None \<and> res_error (zvw_SendMsg e msg) \<noteq> None \<and>
      res_calls (zvw_SendMsg e msg) = []) \<and>
   (StringConfigForKey (msg_channel msg) ConfigUsername [] = [] \<or>
    StringConfigForKey (msg_channel msg) ConfigAuthToken [] = [] \<longrightarrow>
      (\<exists>r. fc_SendMsg e msg = Returned r \<and> res_status r = None \<and> res_error r \<noteq> None \<and>
           res_calls r = [])) \<and>
   (StringConfigForKey (msg_channel msg) configBotToken [] = [] \<longrightarrow>
      res_status (sl_SendMsg e msg) = None \<and> res_error (sl_SendMsg e msg) \<noteq> None \<and>
      res_calls (sl_SendMsg e msg) = [])"
  by (simp add: zv_SendMsg_def zvw_SendMsg_def fc_SendMsg_def sl_SendMsg_def Let_def)

lemma no_config: "StringConfigForKey no_config_channel key [] = []"
  by (simp add: StringConfigForKey_def no_config_channel_def channel_with_def)

theorem missing_credential_sends_nothing_witness:
  "res_status (zv_SendMsg (scripted_env []) (msg_to no_config_channel ''5511'' ''hi'' [])) = None \<and>
   res_calls (zv_SendMsg (scripted_env []) (msg_to no_config_channel ''5511'' ''hi'' [])) = [] \<and>
   res_error (zv_SendMsg (scripted_env []) (msg_to no_config_channel ''5511'' ''hi'' [])) \<noteq> None \<and>
   res_calls (zvw_SendMsg (scripted_env []) (msg_to no_config_channel ''5511'' ''hi'' [])) = [] \<and>
   res_calls (sl_SendMsg (scripted_env []) (msg_to no_config_channel ''5511'' ''hi'' [])) = [] \<and>
   (\<exists>r. fc_SendMsg (scripted_env []) (msg_to no_config_channel ''5511'' ''hi'' []) = Returned r \<and>
        res_status r = None \<and> res_error r \<noteq> None \<and> res_calls r = [])"
proof -
  let ?m = "msg_to no_config_channel ''5511'' ''hi'' []"
  have c: "StringConfigForKey (msg_channel ?m) key [] = []" for key
    by (simp add: msg_to_def no_config)
  from missing_credential_sends_nothing [of ?m "scripted_env []"] c
  show ?thesis by blast
qed

section \<open>Outbound: splitting\<close>

lemma SplitMsg_concat: "concat (SplitMsg str n) = str"
proof (induction str n rule: SplitMsg.induct)
  case (1 str maxlen)
  show ?case
  proof (cases "maxlen = 0 \<or> length str \<le> maxlen")
    case True
    then show ?thesis by (subst SplitMsg.simps) simp
  next
    case False
    with "1" have "concat (SplitMsg (drop maxlen str) maxlen) = drop maxlen str" by simp
    with False show ?thesis by (subst SplitMsg.simps) simp
  qed
qed

lemma SplitMsg_bound: "0 < n \<Longrightarrow> p \<in> set (SplitMsg str n) \<Longrightarrow> length p \<le> n"
proof (induction str n arbitrary: p rule: SplitMsg.induct)
  case (1 str maxlen)
  show ?case
  proof (cases "length str \<le> maxlen")
    case True
    with "1.prems" show ?thesis by (subst (asm) SplitMsg.simps) simp
  next
    case False
    with "1.prems" have "p = take maxlen str \<or> p \<in> set (SplitMsg (drop maxlen str) maxlen)"
      by (subst (asm) SplitMsg.simps) simp
    then show ?thesis
    proof
      assume "p = take maxlen str"
      then show ?thesis by simp
    next
      assume "p \<in> set (SplitMsg (drop maxlen str) maxlen)"
      with "1.IH" [of p] False "1.prems"(1) show ?thesis by simp
    qed
  qed
qed

text \<open>
  The two scenarios of the spec: a text within the maximum is one part, and a text
  longer than the maximum and within twice the maximum (2300 bytes for the maximum
  1152) is exactly two parts, the first of the maximum length.
\<close>

lemma SplitMsg_short: "length s \<le> n \<Longrightarrow> SplitMsg s n = [s]"
  by (subst SplitMsg.simps) simp

lemma SplitMsg_two_parts:
  assumes "n < length s" and "length s \<le> 2 * n"
  shows "SplitMsg s n = [take n s, drop n s]"
proof -
  from assms have "0 < n" by (cases n) auto
  moreover from assms have "length (drop n s) \<le> n" by simp
  then have "SplitMsg (drop n s) n = [drop n s]" by (rule SplitMsg_short)
  ultimately show ?thesis using assms(1) by (subst SplitMsg.simps) simp
qed

text \<open>
  With no failure the Zenvia SMS loop issues one request per part, in order, each
  carrying its part as the message.
\<close>

lemma zv_send_parts_calls:
  "res_error (zv_send_parts e msg u pw parts st calls) = None \<Longrightarrow>
   res_calls (zv_send_parts e msg u pw parts st calls) = calls @ map (zv_request msg u pw) parts"
proof (induction parts arbitrary: st calls)
  case Nil
  then show ?case by simp
next
  case (Cons part parts)
  obtain rr err where n: "net e (length calls) (zv_request msg u pw part) = (rr, err)"
    by (cases "net e (length calls) (zv_request msg u pw part)")
  from Cons.prems n have e: "err = None"
    by (cases err) (simp_all add: Let_def)
  let ?code = "case json_GetString e rr [''sendSmsResponse'', ''statusCode''] of
                 Inl _ \<Rightarrow> [] | Inr s \<Rightarrow> s"
  from Cons.prems n e obtain s where s: "map_of zv_statusMapping ?code = Some s" "s \<noteq> MsgErrored"
    by (cases "map_of zv_statusMapping ?code") (auto simp add: Let_def split: if_splits)
  let ?st = "SetStatus MsgWired
               (AddLog (Some (WithError ''Message Send Error'' None
                                (NewChannelLogFromRR ''Message Sent'' rr))) st)"
  have step: "zv_send_parts e msg u pw (part # parts) st calls =
              zv_send_parts e msg u pw parts ?st (calls @ [zv_request msg u pw part])"
    using n e s by (simp add: Let_def)
  with Cons.prems have "res_error (zv_send_parts e msg u pw parts ?st
                           (calls @ [zv_request msg u pw part])) = None"
    by simp
  from Cons.IH [OF this] step show ?case by simp
qed

lemma zv_request_msg: "zv_msg (req_body (zv_request msg u pw part)) = part"
  by (simp add: zv_request_def)

text \<open>
  Claim C3, against the split as the spec describes it: for every text (in particular
  one longer than the maximum) the parts of Zenvia SMS (maximum 150) and of Zenvia
  WhatsApp (maximum 1152) concatenate to the text and none is longer than the maximum;
  a Zenvia SMS send that returns no error has issued the parts in order, and the text
  entries of the Zenvia WhatsApp payload are the parts of the text.
\<close>

theorem split_is_lossless_and_bounded:
  "concat (SplitMsg t zv_maxMsgLength) = t \<and>
   (\<forall>p \<in> set (SplitMsg t zv_maxMsgLength). length p \<le> 150) \<and>
   concat (SplitMsgByChannel c t zvw_maxMsgLength) = t \<and>
   (\<forall>p \<in> set (SplitMsgByChannel c t zvw_maxMsgLength). length p \<le> 1152) \<and>
   (StringConfigForKey (msg_channel msg) ConfigUsername [] \<noteq> [] \<and>
    StringConfigForKey (msg_channel msg) ConfigPassword [] \<noteq> [] \<and>
    res_error (zv_SendMsg e msg) = None \<longrightarrow>
      map (\<lambda>r. zv_msg (req_body r)) (res_calls (zv_SendMsg e msg)) =
        SplitMsg (GetTextAndAttachments e msg) zv_maxMsgLength) \<and>
   concat (map mt_text (filter (\<lambda>x. mt_type x = ''text'') (zvw_contents_of e msg))) = msg_text msg"
proof -
  have a: "concat (SplitMsg t zv_maxMsgLength) = t"
    by (rule SplitMsg_concat)
  have b: "\<forall>p \<in> set (SplitMsg t zv_maxMsgLength). length p \<le> 150"
    using SplitMsg_bound [of zv_maxMsgLength _ t] by (simp add: zv_maxMsgLength_def)
  have c: "concat (SplitMsgByChannel c t zvw_maxMsgLength) = t"
    by (simp add: SplitMsgByChannel_def SplitMsg_concat)
  have d: "\<forall>p \<in> set (SplitMsgByChannel c t zvw_maxMsgLength). length p \<le> 1152"
    using SplitMsg_bound [of zvw_maxMsgLength _ t]
    by (simp add: zvw_maxMsgLength_def SplitMsgByChannel_def)
  have f: "map (\<lambda>r. zv_msg (req_body r)) (res_calls (zv_SendMsg e msg)) =
        SplitMsg (GetTextAndAttachments e msg) zv_maxMsgLength"
    if u: "StringConfigForKey (msg_channel msg) ConfigUsername [] \<noteq> []"
      and p: "StringConfigForKey (msg_channel msg) ConfigPassword [] \<noteq> []"
      and r: "res_error (zv_SendMsg e msg) = None"
  proof -
    let ?u = "StringConfigForKey (msg_channel msg) ConfigUsername []"
    let ?p = "StringConfigForKey (msg_channel msg) ConfigPassword []"
    let ?parts = "SplitMsg (GetTextAndAttachments e msg) zv_maxMsgLength"
    let ?st = "NewMsgStatusForID (msg_id msg) MsgErrored"
    have eq: "zv_SendMsg e msg = zv_send_parts e msg ?u ?p ?parts ?st []"
      using u p by (simp add: zv_SendMsg_def Let_def)
    with r have "res_error (zv_send_parts e msg ?u ?p ?parts ?st []) = None" by simp
    from zv_send_parts_calls [OF this] eq show ?thesis
      by (simp add: comp_def zv_request_msg)
  qed
  have g: "concat (map mt_text (filter (\<lambda>x. mt_type x = ''text'') (zvw_contents_of e msg)))
             = msg_text msg"
    by (simp add: zvw_contents_of_def filter_map comp_def split_def Let_def
          SplitMsgByChannel_def SplitMsg_concat)
  from a b c d f g show ?thesis by blast
qed

theorem split_is_lossless_and_bounded_witness:
  "zv_maxMsgLength < length (replicate 200 CHR ''a'') \<and>
   concat (SplitMsg (replicate 200 CHR ''a'') zv_maxMsgLength) = replicate 200 CHR ''a'' \<and>
   list_all (\<lambda>p. length p \<le> 150) (SplitMsg (replicate 200 CHR ''a'') zv_maxMsgLength) \<and>
   list_all (\<lambda>p. length p \<le> 1152)
     (SplitMsgByChannel zvw_channel (replicate 200 CHR ''a'') zvw_maxMsgLength)"
proof -
  note t = split_is_lossless_and_bounded
             [of "replicate 200 CHR ''a''" zvw_channel
                 "msg_to zv_channel ''5511'' ''hi'' []" "scripted_env []"]
  from t have a: "concat (SplitMsg (replicate 200 CHR ''a'') zv_maxMsgLength) =
                    replicate 200 CHR ''a''"
    by blast
  from t have b: "\<forall>p \<in> set (SplitMsg (replicate 200 CHR ''a'') zv_maxMsgLength). length p \<le> 150"
    by blast
  from t have c: "\<forall>p \<in> set (SplitMsgByChannel zvw_channel (replicate 200 CHR ''a'')
                              zvw_maxMsgLength). length p \<le> 1152"
    by blast
  have d: "zv_maxMsgLength < length (replicate 200 CHR ''a'')"
    by (simp add: zv_maxMsgLength_def)
  from a b c d show ?thesis by (simp add: list_all_iff)
qed

section \<open>Outbound: the status after a failed part\<close>

lemma parseAttachment_ok:
  assumes "NewRequest_err e (snd (SplitAttachment e a)) = None"
    and "BasePathForURL e (snd (SplitAttachment e a)) = Inr fn"
  shows "\<exists>fp l r. parseAttachmentToFileParams e msg a n = (Some fp, Some l, None, [r])"
  using assms
  by (cases "SplitAttachment e a")
     (simp add: parseAttachmentToFileParams_def Let_def split: prod.splits)

lemma sendFilePart_transport_error:
  assumes "\<forall>req. snd (net e n req) \<noteq> None"
  shows "\<exists>x r. sendFilePart e msg tok fp n = (None, Some x, [r])"
proof -
  let ?req = "\<lparr>req_method = ''POST'', req_url = sl_apiURL @ ''/files.upload'',
                 req_headers = [(''Authorization'', ''Bearer '' @ tok),
                                (''Content-Type'', ''multipart/form-data'')],
                 req_body = SlFileBody (fp_File fp) (fp_FileName fp) (fp_Channels fp)\<rparr>"
  obtain resp err where n: "net e n ?req = (resp, err)"
    by (cases "net e n ?req")
  with assms have "err \<noteq> None" by (metis snd_conv)
  then obtain x where "err = Some x" by auto
  with n show ?thesis by (simp add: sendFilePart_def Let_def)
qed

lemma sendTextMsgPart_ok:
  assumes "\<forall>req. json_GetBoolean e (fst (net e n req)) [''ok''] = Inr True"
  shows "\<exists>l r. sendTextMsgPart e msg tok n = (Some l, None, [r])"
proof -
  let ?req = "\<lparr>req_method = ''POST'', req_url = sl_apiURL @ ''/chat.postMessage'',
                 req_headers = [(''Content-Type'', ''application/json; charset=utf-8''),
                                (''Authorization'', ''Bearer '' @ tok)],
                 req_body = SlTextBody (msg_urn_path msg) (msg_text msg)\<rparr>"
  obtain rr err where n: "net e n ?req = (rr, err)"
    by (cases "net e n ?req")
  with assms have "json_GetBoolean e rr [''ok''] = Inr True" by (metis fst_conv)
  with n show ?thesis by (simp add: sendTextMsgPart_def Let_def)
qed

text \<open>
  Claim C2 does not hold of the Slack encoder: \<open>hasError\<close> is overwritten by every
  part, so only the last part decides. A message with one attachment and a text, whose
  file upload fails in transport and whose text is accepted, is returned as wired,
  with a nil error, after three requests.
\<close>

theorem sl_SendMsg_wired_after_failed_upload:
  assumes "StringConfigForKey (msg_channel msg) configBotToken [] \<noteq> []"
    and "msg_attachments msg = [a]" and "msg_text msg \<noteq> []"
    and "NewRequest_err e (snd (SplitAttachment e a)) = None"
    and "BasePathForURL e (snd (SplitAttachment e a)) = Inr fn"
    and "\<forall>req. snd (net e 1 req) \<noteq> None"
    and "\<forall>req. json_GetBoolean e (fst (net e 2 req)) [''ok''] = Inr True"
  shows "status_value (sl_SendMsg e msg) = Some MsgWired \<and>
         res_error (sl_SendMsg e msg) = None \<and> length (res_calls (sl_SendMsg e msg)) = 3"
proof -
  let ?tok = "StringConfigForKey (msg_channel msg) configBotToken []"
  let ?st = "NewMsgStatusForID (msg_id msg) MsgErrored"
  from parseAttachment_ok [OF assms(4) assms(5)] obtain fp l r1 where
    p: "parseAttachmentToFileParams e msg a 0 = (Some fp, Some l, None, [r1])"
    by blast
  from assms(6) have "\<forall>req. snd (net e (Suc 0) req) \<noteq> None" by simp
  from sendFilePart_transport_error [OF this] obtain x r2 where
    u: "sendFilePart e msg ?tok fp (Suc 0) = (None, Some x, [r2])"
    by blast
  have loop: "sl_attachments_loop e msg ?tok [a] (True, ?st, []) =
                (True, AddLog None (AddLog (Some l) ?st), [r1, r2])"
    by (simp add: p u)
  from assms(7) have "\<forall>req. json_GetBoolean e (fst (net e (Suc (Suc 0)) req)) [''ok''] = Inr True"
    by (simp add: numeral_2_eq_2)
  from sendTextMsgPart_ok [OF this] obtain l3 r3 where
    t: "sendTextMsgPart e msg ?tok (Suc (Suc 0)) = (Some l3, None, [r3])"
    by blast
  have "sl_SendMsg e msg =
          \<lparr>res_status = Some (SetStatus MsgWired
                                (AddLog (Some l3) (AddLog None (AddLog (Some l) ?st)))),
           res_error = None, res_calls = [r1, r2, r3]\<rparr>"
    using assms(1) assms(2) assms(3)
    by (simp add: sl_SendMsg_def Let_def loop t del: sl_attachments_loop.simps)
  then show ?thesis by (simp add: status_value_def SetStatus_def)
qed

theorem sl_SendMsg_wired_after_failed_upload_witness:
  "status_value
     (sl_SendMsg (scripted_env [(''img'', None), ([], Some (External ''timeout'')), (''true'', None)])
        (msg_to sl_channel_ok ''C123'' ''hi'' [''http://a/1.png''])) = Some MsgWired \<and>
   (\<forall>r. snd (net (scripted_env [(''img'', None), ([], Some (External ''timeout'')),
                                     (''true'', None)]) 1 r) = Some (External ''timeout''))"
proof -
  let ?e = "scripted_env [(''img'', None), ([], Some (External ''timeout'')), (''true'', None)]"
  let ?m = "msg_to sl_channel_ok ''C123'' ''hi'' [''http://a/1.png'']"
  have 1: "StringConfigForKey (msg_channel ?m) configBotToken [] \<noteq> []"
    by (simp add: msg_to_def sl_channel_ok_def channel_with_def StringConfigForKey_def
          configBotToken_def)
  have 2: "msg_attachments ?m = [''http://a/1.png'']" "msg_text ?m \<noteq> []"
    by (simp_all add: msg_to_def)
  have 3: "NewRequest_err ?e (snd (SplitAttachment ?e ''http://a/1.png'')) = None"
    "BasePathForURL ?e (snd (SplitAttachment ?e ''http://a/1.png'')) = Inr ''file.jpg''"
    by (simp_all add: scripted_env_def)
  have 4: "\<forall>req. snd (net ?e 1 req) \<noteq> None"
    by (simp add: scripted_env_def)
  have 5: "\<forall>req. json_GetBoolean ?e (fst (net ?e 2 req)) [''ok''] = Inr True"
    by (simp add: scripted_env_def)
  have 6: "\<forall>r. snd (net ?e 1 r) = Some (External ''timeout'')"
    by (simp add: scripted_env_def)
  from sl_SendMsg_wired_after_failed_upload [OF 1 2 3 4 5] 6 show ?thesis by simp
qed

text \<open>
  The Zenvia SMS loop sets the status to wired after each part, so a failure on a
  later part is returned with the error and a wired status.
\<close>

lemma zv_send_parts_later_failure:
  assumes "\<forall>req. net e (length calls) req = (rr, None)"
    and "zv_mapStatus (case json_GetString e rr [''sendSmsResponse'', ''statusCode''] of
                         Inl _ \<Rightarrow> [] | Inr s \<Rightarrow> s) \<noteq> MsgErrored"
    and "\<forall>req. snd (net e (Suc (length calls)) req) = Some x"
  shows "status_value (zv_send_parts e msg u pw (p1 # p2 # ps) st calls) = Some MsgWired \<and>
         res_error (zv_send_parts e msg u pw (p1 # p2 # ps) st calls) = Some x"
proof -
  let ?code = "case json_GetString e rr [''sendSmsResponse'', ''statusCode''] of
                 Inl _ \<Rightarrow> [] | Inr s \<Rightarrow> s"
  from assms(2) obtain s where s: "map_of zv_statusMapping ?code = Some s" "s \<noteq> MsgErrored"
    by (cases "map_of zv_statusMapping ?code") (auto simp add: zv_mapStatus_def)
  let ?st = "SetStatus MsgWired
               (AddLog (Some (WithError ''Message Send Error'' None
                                (NewChannelLogFromRR ''Message Sent'' rr))) st)"
  have step: "zv_send_parts e msg u pw (p1 # p2 # ps) st calls =
              zv_send_parts e msg u pw (p2 # ps) ?st (calls @ [zv_request msg u pw p1])"
    using assms(1) s by (simp add: Let_def)
  obtain rr2 where n2: "net e (Suc (length calls)) (zv_request msg u pw p2) = (rr2, Some x)"
    using assms(3) by (cases "net e (Suc (length calls)) (zv_request msg u pw p2)") (metis snd_conv)
  have "zv_send_parts e msg u pw (p2 # ps) ?st (calls @ [zv_request msg u pw p1]) =
          \<lparr>res_status = Some (AddLog (Some (WithError ''Message Send Error'' (Some x)
                                 (NewChannelLogFromRR ''Message Sent'' rr2))) ?st),
           res_error = Some x,
           res_calls = calls @ [zv_request msg u pw p1] @ [zv_request msg u pw p2]\<rparr>"
    using n2 by (simp add: Let_def)
  with step show ?thesis
    by (simp add: status_value_def AddLog_def SetStatus_def)
qed

section \<open>Outbound: what a failed send returns\<close>

lemma SplitMsg_nonempty: "SplitMsg s n \<noteq> []"
  by (subst SplitMsg.simps) simp

lemma exchange_log_fields:
  "log_response (exchange_log (rr, err)) = rr" "log_error (exchange_log (rr, err)) = err"
  by (cases err; simp add: exchange_log_def WithError_def NewChannelLogFromRR_def)+

lemma logged_errors_single:
  "logged_errors [Some l] = (case log_error l of None \<Rightarrow> [] | Some x \<Rightarrow> [x])"
  by (simp add: logged_errors_def map_filter_Cons map_filter_Nil split: option.splits)

subsection \<open>Zenvia WhatsApp and FreshChat: one request\<close>

lemma zvw_SendMsg_failure:
  assumes "StringConfigForKey (msg_channel msg) ConfigAPIKey [] \<noteq> []"
    and "\<forall>req. net e 0 req = (rr, err)"
    and "err \<noteq> None \<or> (\<exists>y. json_GetString e rr [''id''] = Inl y)"
  shows "status_value (zvw_SendMsg e msg) = Some MsgErrored \<and>
         res_error (zvw_SendMsg e msg) = None \<and>
         status_logs (zvw_SendMsg e msg) = [Some (exchange_log (rr, err))]"
proof (cases err)
  case (Some x)
  with assms(1) assms(2) show ?thesis
    by (simp add: zvw_SendMsg_def Let_def status_value_def status_logs_def AddLog_def
          NewMsgStatusForID_def exchange_log_def)
next
  case None
  with assms(3) obtain y where "json_GetString e rr [''id''] = Inl y" by blast
  with None assms(1) assms(2) show ?thesis
    by (simp add: zvw_SendMsg_def Let_def status_value_def status_logs_def AddLog_def
          NewMsgStatusForID_def exchange_log_def)
qed

lemma fc_SendMsg_failure:
  assumes "StringConfigForKey (msg_channel msg) ConfigUsername [] \<noteq> []"
    and "StringConfigForKey (msg_channel msg) ConfigAuthToken [] \<noteq> []"
    and "CHR ''/'' \<in> set (msg_urn_path msg)"
    and "\<forall>req. net e 0 req = (rr, Some x)"
  shows "\<exists>r. fc_SendMsg e msg = Returned r \<and> status_value r = Some MsgErrored \<and>
              res_error r = Some x \<and> status_logs r = [Some (exchange_log (rr, Some x))]"
proof -
  from assms(3) have "2 \<le> length (Split (msg_urn_path msg) CHR ''/'')"
    by (rule Split_with_sep)
  then have "\<not> length (Split (msg_urn_path msg) CHR ''/'') < 2" by simp
  with assms(1) assms(2) assms(4) show ?thesis
    by (simp add: fc_SendMsg_def Let_def status_value_def status_logs_def AddLog_def
          NewMsgStatusForID_def exchange_log_def)
qed

subsection \<open>Zenvia SMS: a failure on any part\<close>

lemma zv_step_failed:
  assumes "net e (length calls) (zv_request msg u pw part) = x" and "zv_part_failed e x"
  shows "\<exists>y. zv_send_parts e msg u pw (part # parts) st calls =
           \<lparr>res_status = Some (AddLog (Some (exchange_log x)) st), res_error = Some y,
            res_calls = calls @ [zv_request msg u pw part]\<rparr>"
proof (cases x)
  case (Pair rr err)
  show ?thesis
  proof (cases err)
    case (Some y)
    with Pair assms(1) show ?thesis by (simp add: Let_def exchange_log_def)
  next
    case None
    let ?code = "case json_GetString e rr [''sendSmsResponse'', ''statusCode''] of
                   Inl _ \<Rightarrow> [] | Inr s \<Rightarrow> s"
    from None Pair assms(2) have "zv_mapStatus ?code = MsgErrored"
      by (simp add: zv_part_failed_def)
    then have "map_of zv_statusMapping ?code = None \<or>
               map_of zv_statusMapping ?code = Some MsgErrored"
      by (cases "map_of zv_statusMapping ?code") (simp_all add: zv_mapStatus_def)
    with None Pair assms(1) show ?thesis
      by (auto simp add: Let_def exchange_log_def)
  qed
qed

lemma zv_step_ok:
  assumes "net e (length calls) (zv_request msg u pw part) = x" and "\<not> zv_part_failed e x"
  shows "zv_send_parts e msg u pw (part # parts) st calls =
           zv_send_parts e msg u pw parts
             (SetStatus MsgWired (AddLog (Some (exchange_log x)) st))
             (calls @ [zv_request msg u pw part])"
proof (cases x)
  case (Pair rr err)
  let ?code = "case json_GetString e rr [''sendSmsResponse'', ''statusCode''] of
                 Inl _ \<Rightarrow> [] | Inr s \<Rightarrow> s"
  from Pair assms(2) have e: "err = None" and m: "zv_mapStatus ?code \<noteq> MsgErrored"
    by (simp_all add: zv_part_failed_def)
  from m obtain s where "map_of zv_statusMapping ?code = Some s" "s \<noteq> MsgErrored"
    by (cases "map_of zv_statusMapping ?code") (auto simp add: zv_mapStatus_def)
  with e Pair assms(1) show ?thesis
    by (simp add: Let_def exchange_log_def)
qed

text \<open>
  When part \<open>k\<close> is the first part that fails, the loop returns a non-nil error after
  \<open>k + 1\<close> requests, and the trail has gained the logs of these \<open>k + 1\<close> exchanges,
  the failed one last.
\<close>

lemma zv_send_parts_first_failure:
  assumes "k < length parts"
    and "\<forall>i < k. \<not> zv_part_failed e (net e (length calls + i) (zv_request msg u pw (parts ! i)))"
    and "zv_part_failed e (net e (length calls + k) (zv_request msg u pw (parts ! k)))"
  shows "res_error (zv_send_parts e msg u pw parts st calls) \<noteq> None \<and>
         res_calls (zv_send_parts e msg u pw parts st calls) =
           calls @ map (zv_request msg u pw) (take (Suc k) parts) \<and>
         status_logs (zv_send_parts e msg u pw parts st calls) =
           st_logs st @
           map (\<lambda>(i, p). Some (exchange_log (net e i (zv_request msg u pw p))))
             (List.enumerate (length calls) (take (Suc k) parts)) \<and>
         (k = 0 \<longrightarrow> status_value (zv_send_parts e msg u pw parts st calls) = Some (st_value st))"
  using assms
proof (induction parts arbitrary: k st calls)
  case Nil
  then show ?case by simp
next
  case (Cons p ps)
  let ?x = "net e (length calls) (zv_request msg u pw p)"
  show ?case
  proof (cases k)
    case 0
    with Cons.prems(3) have "zv_part_failed e ?x" by simp
    from zv_step_failed [OF refl this] obtain y where
      "zv_send_parts e msg u pw (p # ps) st calls =
         \<lparr>res_status = Some (AddLog (Some (exchange_log ?x)) st), res_error = Some y,
          res_calls = calls @ [zv_request msg u pw p]\<rparr>"
      by blast
    with 0 show ?thesis
      by (simp add: status_logs_def status_value_def AddLog_def)
  next
    case (Suc j)
    from Cons.prems(2) Suc have "\<not> zv_part_failed e ?x" by fastforce
    from zv_step_ok [OF refl this]
    have step: "zv_send_parts e msg u pw (p # ps) st calls =
                  zv_send_parts e msg u pw ps
                    (SetStatus MsgWired (AddLog (Some (exchange_log ?x)) st))
                    (calls @ [zv_request msg u pw p])" .
    from Cons.prems(1) Suc have 1: "j < length ps" by simp
    have 2: "\<forall>i < j. \<not> zv_part_failed e
               (net e (length (calls @ [zv_request msg u pw p]) + i)
                  (zv_request msg u pw (ps ! i)))"
    proof (intro allI impI)
      fix i assume "i < j"
      then have "Suc i < k" using Suc by simp
      with Cons.prems(2) have "\<not> zv_part_failed e
               (net e (length calls + Suc i) (zv_request msg u pw ((p # ps) ! Suc i)))"
        by blast
      then show "\<not> zv_part_failed e
               (net e (length (calls @ [zv_request msg u pw p]) + i)
                  (zv_request msg u pw (ps ! i)))"
        by simp
    qed
    from Cons.prems(3) Suc
    have 3: "zv_part_failed e
               (net e (length (calls @ [zv_request msg u pw p]) + j)
                  (zv_request msg u pw (ps ! j)))"
      by simp
    from Cons.IH [OF 1 2 3, of "SetStatus MsgWired (AddLog (Some (exchange_log ?x)) st)"]
    show ?thesis unfolding step using Suc
      by (simp add: SetStatus_def AddLog_def)
  qed
qed

lemma zv_SendMsg_parts:
  assumes "StringConfigForKey (msg_channel msg) ConfigUsername [] \<noteq> []"
    and "StringConfigForKey (msg_channel msg) ConfigPassword [] \<noteq> []"
  shows "zv_SendMsg e msg =
           zv_send_parts e msg (StringConfigForKey (msg_channel msg) ConfigUsername [])
             (StringConfigForKey (msg_channel msg) ConfigPassword [])
             (SplitMsg (GetTextAndAttachments e msg) zv_maxMsgLength)
             (NewMsgStatusForID (msg_id msg) MsgErrored) []"
  using assms by (simp add: zv_SendMsg_def Let_def)

lemma zv_SendMsg_failure:
  assumes "StringConfigForKey (msg_channel msg) ConfigUsername [] = u" and "u \<noteq> []"
    and "StringConfigForKey (msg_channel msg) ConfigPassword [] = pw" and "pw \<noteq> []"
    and "SplitMsg (GetTextAndAttachments e msg) zv_maxMsgLength = parts"
    and "k < length parts"
    and "\<forall>i < k. \<not> zv_part_failed e (net e i (zv_request msg u pw (parts ! i)))"
    and "zv_part_failed e (net e k (zv_request msg u pw (parts ! k)))"
  shows "res_error (zv_SendMsg e msg) \<noteq> None \<and>
         length (res_calls (zv_SendMsg e msg)) = Suc k \<and>
         status_logs (zv_SendMsg e msg) =
           map (\<lambda>(i, p). Some (exchange_log (net e i (zv_request msg u pw p))))
             (List.enumerate 0 (take (Suc k) parts)) \<and>
         (k = 0 \<longrightarrow> status_value (zv_SendMsg e msg) = Some MsgErrored)"
proof -
  have eq: "zv_SendMsg e msg =
              zv_send_parts e msg u pw parts (NewMsgStatusForID (msg_id msg) MsgErrored) []"
    using assms(1-5) zv_SendMsg_parts [of msg e] by simp
  from assms(7) have a: "\<forall>i < k. \<not> zv_part_failed e
           (net e (length ([]::Request list) + i) (zv_request msg u pw (parts ! i)))"
    by simp
  from assms(8) have b: "zv_part_failed e
           (net e (length ([]::Request list) + k) (zv_request msg u pw (parts ! k)))"
    by simp
  from zv_send_parts_first_failure [OF assms(6) a b, of "NewMsgStatusForID (msg_id msg) MsgErrored"]
    assms(6)
  show ?thesis unfolding eq
    by (simp add: NewMsgStatusForID_def)
qed

subsection \<open>Slack: the error value and a failed text part\<close>

lemma sl_SendMsg_nil_error:
  "StringConfigForKey (msg_channel msg) configBotToken [] \<noteq> [] \<Longrightarrow>
   res_error (sl_SendMsg e msg) = None"
  by (simp add: sl_SendMsg_def Let_def split: prod.splits)

lemma sl_attachments_loop_value:
  "st_value (fst (snd (sl_attachments_loop e msg tok atts (h, st, c)))) = st_value st"
proof (induction atts arbitrary: h st c)
  case Nil
  then show ?case by simp
next
  case (Cons a atts)
  obtain fa l er cs where p: "parseAttachmentToFileParams e msg a (length c) = (fa, l, er, cs)"
    by (cases "parseAttachmentToFileParams e msg a (length c)") auto
  show ?case
  proof (cases fa)
    case None
    with p Cons.IH show ?thesis by (simp add: AddLog_def)
  next
    case (Some fp)
    obtain l2 er2 cs2 where u: "sendFilePart e msg tok fp (length (c @ cs)) = (l2, er2, cs2)"
      by (cases "sendFilePart e msg tok fp (length (c @ cs))") auto
    with Some p Cons.IH show ?thesis by (simp add: AddLog_def)
  qed
qed

lemma sendTextMsgPart_failure:
  assumes "\<forall>n req. req_url req = sl_apiURL @ ''/chat.postMessage'' \<longrightarrow> net e n req = (rr, err)"
    and "json_GetBoolean e rr [''ok''] \<noteq> Inr True"
  shows "\<exists>x r. sendTextMsgPart e msg tok n = (Some (exchange_log (rr, err)), Some x, [r])"
proof -
  let ?req = "\<lparr>req_method = ''POST'', req_url = sl_apiURL @ ''/chat.postMessage'',
                 req_headers = [(''Content-Type'', ''application/json; charset=utf-8''),
                                (''Authorization'', ''Bearer '' @ tok)],
                 req_body = SlTextBody (msg_urn_path msg) (msg_text msg)\<rparr>"
  from assms(1) have n: "net e n ?req = (rr, err)" by simp
  show ?thesis
  proof (cases "json_GetBoolean e rr [''ok'']")
    case (Inl y)
    with n show ?thesis by (simp add: sendTextMsgPart_def Let_def exchange_log_def)
  next
    case (Inr ok)
    with assms(2) have "\<not> ok" by auto
    with Inr n show ?thesis
      by (cases "json_GetString e rr [''error'']")
         (simp_all add: sendTextMsgPart_def Let_def exchange_log_def)
  qed
qed

lemma sl_SendMsg_text_failure:
  assumes "StringConfigForKey (msg_channel msg) configBotToken [] \<noteq> []"
    and "msg_text msg \<noteq> []"
    and "\<forall>n req. req_url req = sl_apiURL @ ''/chat.postMessage'' \<longrightarrow> net e n req = (rr, err)"
    and "json_GetBoolean e rr [''ok''] \<noteq> Inr True"
  shows "status_value (sl_SendMsg e msg) = Some MsgErrored \<and>
         last (status_logs (sl_SendMsg e msg)) = Some (exchange_log (rr, err))"
proof -
  let ?tok = "StringConfigForKey (msg_channel msg) configBotToken []"
  let ?st0 = "NewMsgStatusForID (msg_id msg) MsgErrored"
  obtain h st c where
    loop: "sl_attachments_loop e msg ?tok (msg_attachments msg) (True, ?st0, []) = (h, st, c)"
    by (cases "sl_attachments_loop e msg ?tok (msg_attachments msg) (True, ?st0, [])") auto
  from sl_attachments_loop_value [of e msg ?tok "msg_attachments msg" True ?st0 "[]"] loop
  have v: "st_value st = MsgErrored" by (simp add: NewMsgStatusForID_def)
  from sendTextMsgPart_failure [OF assms(3) assms(4)] obtain x r where
    t: "sendTextMsgPart e msg ?tok (length c) = (Some (exchange_log (rr, err)), Some x, [r])"
    by blast
  have "sl_SendMsg e msg =
          \<lparr>res_status = Some (AddLog (Some (exchange_log (rr, err))) st), res_error = None,
           res_calls = c @ [r]\<rparr>"
    using assms(1) assms(2) by (simp add: sl_SendMsg_def Let_def loop t)
  with v show ?thesis
    by (simp add: status_value_def status_logs_def AddLog_def)
qed

subsection \<open>The claim\<close>

text \<open>
  Claim C6, as stated, fails for Zenvia WhatsApp: a send whose only request fails in
  transport returns the errored status with a nil error value.
\<close>

theorem zvw_SendMsg_failure_returns_nil_error:
  "(\<forall>req. snd (net (scripted_env []) 0 req) = Some (External ''connection refused'')) \<and>
   res_error (zvw_SendMsg (scripted_env []) (msg_to zvw_channel ''5511'' ''hi'' [])) = None \<and>
   status_value (zvw_SendMsg (scripted_env []) (msg_to zvw_channel ''5511'' ''hi'' [])) =
     Some MsgErrored"
  by (simp add: zvw_SendMsg_def Let_def status_value_def scripted_env_def msg_to_def
        zvw_channel_def channel_with_def StringConfigForKey_def ConfigAPIKey_def AddLog_def
        NewMsgStatusForID_def)

text \<open>
  Claim C6, amended. A failed exchange is recorded in the log trail of the returned
  status with its response and, when the transport failed, its error, and the send
  reports it as follows.
  \<^item> Zenvia WhatsApp (one request, which fails in transport or is answered without an
    id): an errored status and a nil error value.
  \<^item> FreshChat (one request, which fails in transport): an errored status and that
    error.
  \<^item> Zenvia SMS (part \<open>k\<close> is the first to fail, in transport or by a status code that
    is absent from the table or mapped to errored): a non-nil error after \<open>k + 1\<close>
    requests, with the \<open>k + 1\<close> exchanges in the trail; the status is errored when
    \<open>k = 0\<close>.
  \<^item> Slack: the error value is always nil; a text part that is not answered with
    \<open>ok\<close> true is recorded in the trail and the status is errored.
\<close>

theorem failed_send_is_logged_and_not_wired:
  "(StringConfigForKey (msg_channel msg) ConfigAPIKey [] \<noteq> [] \<and>
    (\<forall>req. net e 0 req = (rr, err)) \<and>
    (err \<noteq> None \<or> (\<exists>y. json_GetString e rr [''id''] = Inl y)) \<longrightarrow>
      status_value (zvw_SendMsg e msg) = Some MsgErrored \<and>
      res_error (zvw_SendMsg e msg) = None \<and>
      status_logs (zvw_SendMsg e msg) = [Some (exchange_log (rr, err))]) \<and>
   (StringConfigForKey (msg_channel msg) ConfigUsername [] \<noteq> [] \<and>
    StringConfigForKey (msg_channel msg) ConfigAuthToken [] \<noteq> [] \<and>
    CHR ''/'' \<in> set (msg_urn_path msg) \<and> (\<forall>req. net e 0 req = (rr, Some x)) \<longrightarrow>
      (\<exists>r. fc_SendMsg e msg = Returned r \<and> status_value r = Some MsgErrored \<and>
           res_error r = Some x \<and> status_logs r = [Some (exchange_log (rr, Some x))])) \<and>
   (StringConfigForKey (msg_channel msg) ConfigUsername [] = u \<and> u \<noteq> [] \<and>
    StringConfigForKey (msg_channel msg) ConfigPassword [] = pw \<and> pw \<noteq> [] \<and>
    SplitMsg (GetTextAndAttachments e msg) zv_maxMsgLength = parts \<and> k < length parts \<and>
    (\<forall>i < k. \<not> zv_part_failed e (net e i (zv_request msg u pw (parts ! i)))) \<and>
    zv_part_failed e (net e k (zv_request msg u pw (parts ! k))) \<longrightarrow>
      res_error (zv_SendMsg e msg) \<noteq> None \<and>
      length (res_calls (zv_SendMsg e msg)) = Suc k \<and>
      status_logs (zv_SendMsg e msg) =
        map (\<lambda>(i, p). Some (exchange_log (net e i (zv_request msg u pw p))))
          (List.enumerate 0 (take (Suc k) parts)) \<and>
      (k = 0 \<longrightarrow> status_value (zv_SendMsg e msg) = Some MsgErrored)) \<and>
   (StringConfigForKey (msg_channel msg) configBotToken [] \<noteq> [] \<longrightarrow>
      res_error (sl_SendMsg e msg) = None) \<and>
   (StringConfigForKey (msg_channel msg) configBotToken [] \<noteq> [] \<and> msg_text msg \<noteq> [] \<and>
    (\<forall>n req. req_url req = sl_apiURL @ ''/chat.postMessage'' \<longrightarrow> net e n req = (rr, err)) \<and>
    json_GetBoolean e rr [''ok''] \<noteq> Inr True \<longrightarrow>
      status_value (sl_SendMsg e msg) = Some MsgErrored \<and>
      last (status_logs (sl_SendMsg e msg)) = Some (exchange_log (rr, err)))"
proof -
  have zw: "StringConfigForKey (msg_channel msg) ConfigAPIKey [] \<noteq> [] \<and>
    (\<forall>req. net e 0 req = (rr, err)) \<and>
    (err \<noteq> None \<or> (\<exists>y. json_GetString e rr [''id''] = Inl y)) \<longrightarrow>
      status_value (zvw_SendMsg e msg) = Some MsgErrored \<and>
      res_error (zvw_SendMsg e msg) = None \<and>
      status_logs (zvw_SendMsg e msg) = [Some (exchange_log (rr, err))]"
    using zvw_SendMsg_failure [of msg e rr err] by blast
  have fc: "StringConfigForKey (msg_channel msg) ConfigUsername [] \<noteq> [] \<and>
    StringConfigForKey (msg_channel msg) ConfigAuthToken [] \<noteq> [] \<and>
    CHR ''/'' \<in> set (msg_urn_path msg) \<and> (\<forall>req. net e 0 req = (rr, Some x)) \<longrightarrow>
      (\<exists>r. fc_SendMsg e msg = Returned r \<and> status_value r = Some MsgErrored \<and>
           res_error r = Some x \<and> status_logs r = [Some (exchange_log (rr, Some x))])"
    using fc_SendMsg_failure [of msg e rr x] by blast
  have zv: "StringConfigForKey (msg_channel msg) ConfigUsername [] = u \<and> u \<noteq> [] \<and>
    StringConfigForKey (msg_channel msg) ConfigPassword [] = pw \<and> pw \<noteq> [] \<and>
    SplitMsg (GetTextAndAttachments e msg) zv_maxMsgLength = parts \<and> k < length parts \<and>
    (\<forall>i < k. \<not> zv_part_failed e (net e i (zv_request msg u pw (parts ! i)))) \<and>
    zv_part_failed e (net e k (zv_request msg u pw (parts ! k))) \<longrightarrow>
      res_error (zv_SendMsg e msg) \<noteq> None \<and>
      length (res_calls (zv_SendMsg e msg)) = Suc k \<and>
      status_logs (zv_SendMsg e msg) =
        map (\<lambda>(i, p). Some (exchange_log (net e i (zv_request msg u pw p))))
          (List.enumerate 0 (take (Suc k) parts)) \<and>
      (k = 0 \<longrightarrow> status_value (zv_SendMsg e msg) = Some MsgErrored)"
    using zv_SendMsg_failure [of msg u pw e parts k] by blast
  have sl1: "StringConfigForKey (msg_channel msg) configBotToken [] \<noteq> [] \<longrightarrow>
      res_error (sl_SendMsg e msg) = None"
    using sl_SendMsg_nil_error [of msg e] by blast
  have sl2: "StringConfigForKey (msg_channel msg) configBotToken [] \<noteq> [] \<and> msg_text msg \<noteq> [] \<and>
    (\<forall>n req. req_url req = sl_apiURL @ ''/chat.postMessage'' \<longrightarrow> net e n req = (rr, err)) \<and>
    json_GetBoolean e rr [''ok''] \<noteq> Inr True \<longrightarrow>
      status_value (sl_SendMsg e msg) = Some MsgErrored \<and>
      last (status_logs (sl_SendMsg e msg)) = Some (exchange_log (rr, err))"
    using sl_SendMsg_text_failure [of msg e rr err] by blast
  show ?thesis by (intro conjI zw fc zv sl1 sl2)
qed

theorem failed_send_is_logged_and_not_wired_witness:
  "status_value (zvw_SendMsg (scripted_env []) (msg_to zvw_channel ''5511'' ''hi'' [])) =
     Some MsgErrored \<and>
   logged_errors (status_logs (zvw_SendMsg (scripted_env []) (msg_to zvw_channel ''5511'' ''hi'' [])))
     = [External ''connection refused''] \<and>
   (\<exists>r. fc_SendMsg (scripted_env []) (msg_to fc_channel ''chan/user-7'' ''hi'' []) = Returned r \<and>
        status_value r = Some MsgErrored \<and>
        res_error r = Some (External ''connection refused'')) \<and>
   res_error (zv_SendMsg (scripted_env [(''00'', None)])
                (msg_to zv_channel ''5511'' (replicate 151 CHR ''a'') [])) \<noteq> None \<and>
   length (res_calls (zv_SendMsg (scripted_env [(''00'', None)])
                        (msg_to zv_channel ''5511'' (replicate 151 CHR ''a'') []))) = 2 \<and>
   length (status_logs (zv_SendMsg (scripted_env [(''00'', None)])
                          (msg_to zv_channel ''5511'' (replicate 151 CHR ''a'') []))) = 2 \<and>
   res_error (sl_SendMsg (scripted_env []) (msg_to sl_channel_ok ''C123'' ''hi'' [])) = None \<and>
   status_value (sl_SendMsg (scripted_env []) (msg_to sl_channel_ok ''C123'' ''hi'' [])) =
     Some MsgErrored"
proof -
  let ?x = "External ''connection refused''"
  let ?zw = "msg_to zvw_channel ''5511'' ''hi'' []"
  let ?fc = "msg_to fc_channel ''chan/user-7'' ''hi'' []"
  let ?t = "replicate 151 CHR ''a''"
  let ?zv = "msg_to zv_channel ''5511'' ?t []"
  let ?sl = "msg_to sl_channel_ok ''C123'' ''hi'' []"
  let ?e0 = "scripted_env []"
  let ?e1 = "scripted_env [(''00'', None)]"
  let ?parts = "[take 150 ?t, drop 150 ?t]"
  have n: "\<forall>req. net ?e0 0 req = ([], Some ?x)"
    by (simp add: scripted_env_def)
  have zw: "StringConfigForKey (msg_channel ?zw) ConfigAPIKey [] \<noteq> []"
    by (simp add: msg_to_def zvw_channel_def channel_with_def StringConfigForKey_def
          ConfigAPIKey_def)
  have fc: "StringConfigForKey (msg_channel ?fc) ConfigUsername [] \<noteq> []"
    "StringConfigForKey (msg_channel ?fc) ConfigAuthToken [] \<noteq> []"
    "CHR ''/'' \<in> set (msg_urn_path ?fc)"
    by (simp_all add: msg_to_def fc_channel_credentials)
  have zv: "StringConfigForKey (msg_channel ?zv) ConfigUsername [] = ''zv-user''"
    "StringConfigForKey (msg_channel ?zv) ConfigPassword [] = ''zv-pass''"
    by (simp_all add: msg_to_def zv_channel_def channel_with_def StringConfigForKey_def
          ConfigUsername_def ConfigPassword_def)
  have "SplitMsg ?t 150 = ?parts"
    by (rule SplitMsg_two_parts) simp_all
  then have parts: "SplitMsg (GetTextAndAttachments ?e1 ?zv) zv_maxMsgLength = ?parts"
    by (simp add: scripted_env_def msg_to_def zv_maxMsgLength_def)
  have ok0: "\<forall>i < (1::nat). \<not> zv_part_failed ?e1
               (net ?e1 i (zv_request ?zv ''zv-user'' ''zv-pass'' (?parts ! i)))"
    by (simp add: scripted_env_def zv_part_failed_def zv_table_rows)
  have bad1: "zv_part_failed ?e1 (net ?e1 1 (zv_request ?zv ''zv-user'' ''zv-pass'' (?parts ! 1)))"
    by (simp add: scripted_env_def zv_part_failed_def)
  have sl: "StringConfigForKey (msg_channel ?sl) configBotToken [] \<noteq> []" "msg_text ?sl \<noteq> []"
    by (simp_all add: msg_to_def sl_channel_ok_def channel_with_def StringConfigForKey_def
          configBotToken_def)
  have sn: "\<forall>n req. req_url req = sl_apiURL @ ''/chat.postMessage'' \<longrightarrow>
              net ?e0 n req = ([], Some ?x)"
    by (simp add: scripted_env_def)
  have sb: "json_GetBoolean ?e0 [] [''ok''] \<noteq> Inr True"
    by (simp add: scripted_env_def)
  note t0 = failed_send_is_logged_and_not_wired
              [where e = ?e0 and rr = "[]" and err = "Some ?x" and x = ?x]
  from t0 [where msg = ?zw] zw n
  have a: "status_value (zvw_SendMsg ?e0 ?zw) = Some MsgErrored \<and>
           status_logs (zvw_SendMsg ?e0 ?zw) = [Some (exchange_log ([], Some ?x))]"
    by blast
  then have a': "logged_errors (status_logs (zvw_SendMsg ?e0 ?zw)) = [?x]"
    by (simp add: logged_errors_single exchange_log_fields)
  from t0 [where msg = ?fc] fc n
  have b: "\<exists>r. fc_SendMsg ?e0 ?fc = Returned r \<and> status_value r = Some MsgErrored \<and>
             res_error r = Some ?x"
    by blast
  from failed_send_is_logged_and_not_wired
         [where e = ?e1 and msg = ?zv and u = "''zv-user''" and pw = "''zv-pass''"
            and parts = ?parts and k = 1]
       zv parts ok0 bad1
  have c: "res_error (zv_SendMsg ?e1 ?zv) \<noteq> None \<and>
           length (res_calls (zv_SendMsg ?e1 ?zv)) = Suc 1 \<and>
           status_logs (zv_SendMsg ?e1 ?zv) =
             map (\<lambda>(i, p). Some (exchange_log (net ?e1 i (zv_request ?zv ''zv-user'' ''zv-pass'' p))))
               (List.enumerate 0 (take (Suc 1) ?parts))"
    by simp
  then have c': "res_error (zv_SendMsg ?e1 ?zv) \<noteq> None \<and>
           length (res_calls (zv_SendMsg ?e1 ?zv)) = 2 \<and>
           length (status_logs (zv_SendMsg ?e1 ?zv)) = 2"
    by simp
  from t0 [where msg = ?sl] sl sn sb
  have d: "res_error (sl_SendMsg ?e0 ?sl) = None \<and>
           status_value (sl_SendMsg ?e0 ?sl) = Some MsgErrored"
    by blast
  from a a' b c' d show ?thesis by blast
qed

end
